theory Spec2Isabelle
  imports Complex_Main
begin

section \<open>Python values and the outside world\<close>

text \<open>
  The sentiment subsystem of StockSage is the class \<open>SentimentAnalysisTool\<close> of
  \<open>stocksage/tools/sentiment_analysis_tool.py\<close>; tradesymphony carries a second copy in
  \<open>tradesymphony/tools/finance_tools.py\<close>. Its methods are embedded below, one HOL
  function per method; a local variable or an inline fragment that a statement needs by
  name (\<open>adjustment\<close>, \<open>days_back\<close>, the label tests of \<open>_run\<close>) is a function of its own.

  Conventions of the embedding:
  \<^item> a Python \<open>str\<close> is a \<open>string\<close>, its UTF-8 bytes. A \<open>str\<close> can also hold a lone
    surrogate (\<open>json.loads\<close> returns one for the escape of \<open>U+D83D\<close>), which UTF-8 cannot
    encode: it is written here as the byte \<open>0xFF\<close>, which no UTF-8 text contains, and
    \<open>.encode()\<close> raises \<open>UnicodeEncodeError\<close> on a string that has one. \<open>str.lower\<close> is
    modelled on the ASCII letters;
  \<^item> a Python \<open>int\<close> is an \<open>int\<close>; a Python \<open>float\<close> is a \<open>real\<close>: arithmetic is exact, the
    rounding of doubles is not modelled. The statements about floats below are chosen
    so that they do not depend on it: they compare with thresholds away from ties,
    evaluate at inputs where double arithmetic is exact, or allow for its error;
  \<^item> an exception is the \<open>Inl\<close> side of a sum;
  \<^item> a value decoded from JSON (what \<open>response.json()\<close> returns) is a \<open>json\<close>; a decoded
    object keeps its keys in order, as a Python \<open>dict\<close> does.
\<close>

datatype json =
    JNull
  | JBool bool
  | JNum real
  | JStr string
  | JArr "json list"
  | JObj "(string \<times> json) list"

datatype error =
  ZeroDivisionError | OverflowError | AttributeError | TypeError | UnicodeEncodeError

text \<open>What one call of \<open>requests.post\<close>, \<open>raise_for_status\<close> and \<open>response.json\<close> does: one of
  them raises, or a decoded payload comes back.\<close>

datatype http_result = RequestFailed | Payload json

text \<open>
  The libraries and the world the tool reads, passed explicitly:
  \<^item> \<open>md5_int s\<close> is \<open>int(hashlib.md5(s.encode()).hexdigest(), 16)\<close>;
  \<^item> \<open>polarity s\<close> is \<open>TextBlob(s).sentiment.polarity\<close>;
  \<^item> \<open>str_of v\<close> is what an f-string prints for a JSON value \<open>v\<close> that is not a \<open>str\<close>;
  \<^item> \<open>today\<close> is the proleptic Gregorian ordinal of \<open>datetime.now()\<close>'s date
    (\<open>0001-01-01\<close> is day 1, \<open>9999-12-31\<close> is day 3652059);
  \<^item> \<open>http_post key q\<close> is the outcome of the search request for query \<open>q\<close> sent with the
    API key \<open>key\<close>.
\<close>

record env =
  md5_int :: "string \<Rightarrow> nat"
  polarity :: "string \<Rightarrow> real"
  str_of :: "json \<Rightarrow> string"
  today :: int
  http_post :: "string option \<Rightarrow> string \<Rightarrow> http_result"

text \<open>The tool object: the one attribute its methods read.\<close>

record tool =
  serper_api_key :: "string option"

subsection \<open>Builtins\<close>

definition lower_char :: "char \<Rightarrow> char" where
  "lower_char c =
     (case map_of (zip ''ABCDEFGHIJKLMNOPQRSTUVWXYZ'' ''abcdefghijklmnopqrstuvwxyz'') c of
        Some d \<Rightarrow> d
      | None \<Rightarrow> c)"

definition lower :: "string \<Rightarrow> string" where
  "lower s = map lower_char s"

fun starts_with :: "'a list \<Rightarrow> 'a list \<Rightarrow> bool" where
  "starts_with [] ys = True"
| "starts_with (x # xs) [] = False"
| "starts_with (x # xs) (y # ys) = (x = y \<and> starts_with xs ys)"

text \<open>\<open>str_in sub s\<close> is Python's \<open>sub in s\<close> on two strings.\<close>

fun str_in :: "'a list \<Rightarrow> 'a list \<Rightarrow> bool" where
  "str_in sub [] = (sub = [])"
| "str_in sub (c # cs) = (starts_with sub (c # cs) \<or> str_in sub cs)"

text \<open>\<open>s.encode()\<close>: UTF-8 has no encoding of a lone surrogate.\<close>

definition has_surrogate :: "string \<Rightarrow> bool" where
  "has_surrogate s = (CHR 0xFF \<in> set s)"

definition encode :: "string \<Rightarrow> error + string" where
  "encode s = (if has_surrogate s then Inl UnicodeEncodeError else Inr s)"

definition digit :: "nat \<Rightarrow> char" where
  "digit d = ''0123456789'' ! d"

text \<open>\<open>str(n)\<close> of a non-negative integer.\<close>

fun str_nat :: "nat \<Rightarrow> string" where
  "str_nat n = (if n < 10 then [digit n] else str_nat (n div 10) @ [digit (n mod 10)])"

declare str_nat.simps [simp del]

text \<open>\<open>int(x)\<close> of a float truncates toward zero.\<close>

definition py_int :: "real \<Rightarrow> int" where
  "py_int x = (if 0 \<le> x then \<lfloor>x\<rfloor> else \<lceil>x\<rceil>)"

text \<open>\<open>round(x, 2)\<close>: to the nearest multiple of \<open>0.01\<close>, a tie going to the even one.\<close>

definition py_round2 :: "real \<Rightarrow> real" where
  "py_round2 x =
     (let y = x * 100; f = \<lfloor>y\<rfloor>; d = y - of_int f
      in of_int (if d < 1 / 2 then f
                 else if 1 / 2 < d then f + 1
                 else if even f then f else f + 1) / 100)"

text \<open>Truth value of an \<open>Optional[str]\<close> and of a decoded JSON value.\<close>

definition truthy :: "string option \<Rightarrow> bool" where
  "truthy sq = (case sq of None \<Rightarrow> False | Some s \<Rightarrow> s \<noteq> [])"

definition py_bool :: "json \<Rightarrow> bool" where
  "py_bool v =
     (case v of
        JNull \<Rightarrow> False
      | JBool b \<Rightarrow> b
      | JNum x \<Rightarrow> x \<noteq> 0
      | JStr s \<Rightarrow> s \<noteq> []
      | JArr xs \<Rightarrow> xs \<noteq> []
      | JObj kvs \<Rightarrow> kvs \<noteq> [])"

text \<open>\<open>f"{v}"\<close> for a decoded value.\<close>

definition py_str :: "env \<Rightarrow> json \<Rightarrow> string" where
  "py_str e v = (case v of JStr s \<Rightarrow> s | _ \<Rightarrow> str_of e v)"

text \<open>\<open>d.get(k, dflt)\<close>.\<close>

definition dict_get :: "('k \<times> 'v) list \<Rightarrow> 'k \<Rightarrow> 'v \<Rightarrow> 'v" where
  "dict_get kvs k dflt = (case map_of kvs k of Some v \<Rightarrow> v | None \<Rightarrow> dflt)"

text \<open>\<open>len(v)\<close> for a decoded value.\<close>

definition py_len :: "json \<Rightarrow> error + nat" where
  "py_len v =
     (case v of
        JStr s \<Rightarrow> Inr (length s)
      | JArr xs \<Rightarrow> Inr (length xs)
      | JObj kvs \<Rightarrow> Inr (length kvs)
      | _ \<Rightarrow> Inl TypeError)"

subsection \<open>Dates\<close>

text \<open>
  \<open>civil n\<close> is the year, month and day of the date with ordinal \<open>n\<close> in the proleptic
  Gregorian calendar of \<open>datetime\<close>, and \<open>strftime_ymd\<close> prints it as \<open>%Y-%m-%d\<close>,
  the year on four digits as Python documents \<open>%Y\<close> (for the years 1000 to 9999 every
  platform prints the same).
\<close>

definition civil :: "int \<Rightarrow> int \<times> int \<times> int" where
  "civil n =
     (let z = n + 305;
          era = z div 146097;
          doe = z mod 146097;
          yoe = (doe - doe div 1460 + doe div 36524 - doe div 146096) div 365;
          doy = doe - (365 * yoe + yoe div 4 - yoe div 100);
          mp = (5 * doy + 2) div 153;
          d = doy - (153 * mp + 2) div 5 + 1;
          m = (if mp < 10 then mp + 3 else mp - 9);
          y = yoe + era * 400 + (if m \<le> 2 then 1 else 0)
      in (y, m, d))"

definition pad :: "nat \<Rightarrow> string \<Rightarrow> string" where
  "pad w s = replicate (w - length s) (CHR ''0'') @ s"

definition strftime_ymd :: "int \<Rightarrow> string" where
  "strftime_ymd n =
     (case civil n of
        (y, m, d) \<Rightarrow>
          pad 4 (str_nat (nat y)) @ ''-'' @ pad 2 (str_nat (nat m)) @ ''-'' @ pad 2 (str_nat (nat d)))"

section \<open>The stocksage tool\<close>

subsection \<open>\<open>get_company_name_for_ticker\<close>\<close>

definition company_names :: "(string \<times> string) list" where
  "company_names =
     [(''AAPL'', ''Apple Inc.''),
      (''MSFT'', ''Microsoft Corporation''),
      (''AMZN'', ''Amazon.com, Inc.''),
      (''GOOGL'', ''Alphabet Inc. (Google)''),
      (''META'', ''Meta Platforms, Inc.''),
      (''TSLA'', ''Tesla, Inc.''),
      (''NVDA'', ''NVIDIA Corporation''),
      (''JPM'', ''JPMorgan Chase & Co.''),
      (''V'', ''Visa Inc.''),
      (''MA'', ''Mastercard Incorporated''),
      (''PYPL'', ''PayPal Holdings, Inc.''),
      (''DIS'', ''The Walt Disney Company''),
      (''NFLX'', ''Netflix, Inc.''),
      (''INTC'', ''Intel Corporation''),
      (''AMD'', ''Advanced Micro Devices, Inc.''),
      (''IBM'', ''International Business Machines Corporation''),
      (''CSCO'', ''Cisco Systems, Inc.''),
      (''ADBE'', ''Adobe Inc.''),
      (''CRM'', ''Salesforce, Inc.''),
      (''ORCL'', ''Oracle Corporation'')]"

definition get_company_name_for_ticker :: "string \<Rightarrow> string" where
  "get_company_name_for_ticker tkr =
     (case map_of company_names tkr of
        Some n \<Rightarrow> n
      | None \<Rightarrow> tkr @ '' Corporation'')"

subsection \<open>\<open>get_fallback_news_data\<close>\<close>

text \<open>The table local to \<open>get_fallback_news_data\<close>: ticker to name and industry.\<close>

definition company_info :: "(string \<times> (string \<times> string)) list" where
  "company_info =
     [(''AAPL'', (''Apple Inc.'', ''Technology/Consumer Electronics'')),
      (''MSFT'', (''Microsoft Corporation'', ''Technology/Software'')),
      (''AMZN'', (''Amazon.com, Inc.'', ''E-commerce/Cloud Computing'')),
      (''GOOGL'', (''Alphabet Inc.'', ''Technology/Internet Services'')),
      (''GOOG'', (''Alphabet Inc.'', ''Technology/Internet Services'')),
      (''META'', (''Meta Platforms, Inc.'', ''Technology/Social Media'')),
      (''TSLA'', (''Tesla, Inc.'', ''Automotive/Clean Energy'')),
      (''NVDA'', (''NVIDIA Corporation'', ''Technology/Semiconductors'')),
      (''JPM'', (''JPMorgan Chase & Co.'', ''Financial Services'')),
      (''V'', (''Visa Inc.'', ''Financial Services/Payments''))]"

text \<open>The two lookups with their defaults, \<open>company_info.get(ticker, {}).get(...)\<close>.\<close>

definition fallback_company_name :: "string \<Rightarrow> string" where
  "fallback_company_name tkr =
     (case map_of company_info tkr of
        Some (n, i) \<Rightarrow> n
      | None \<Rightarrow> tkr @ '' Corporation'')"

definition fallback_industry :: "string \<Rightarrow> string" where
  "fallback_industry tkr =
     (case map_of company_info tkr of
        Some (n, i) \<Rightarrow> i
      | None \<Rightarrow> ''Technology'')"

text \<open>The four headline template lists; \<open>cn\<close> is the company name, \<open>ind\<close> the industry.\<close>

definition product_headlines :: "string \<Rightarrow> string \<Rightarrow> string \<Rightarrow> string list" where
  "product_headlines cn tkr ind =
     [cn @ '' ('' @ tkr @ '') Launches New Product Line to Strong Reviews'',
      ''Customer Satisfaction High for '' @ cn @ [CHR 0x27] @ ''s ('' @ tkr @ '') Latest Products'',
      ''Product Innovation Drives Growth at '' @ cn @ '' ('' @ tkr @ '')'',
      ''Market Reception Positive for '' @ cn @ [CHR 0x27] @ ''s ('' @ tkr @ '') Product Strategy'',
      cn @ '' ('' @ tkr @ '') Product Portfolio Expands in '' @ ind @ '' Sector'']"

definition leadership_headlines :: "string \<Rightarrow> string \<Rightarrow> string \<Rightarrow> string list" where
  "leadership_headlines cn tkr ind =
     [cn @ '' ('' @ tkr @ '') CEO Outlines Vision for Company Growth'',
      ''Leadership Changes at '' @ cn @ '' ('' @ tkr @ '') Seen as Positive by Analysts'',
      cn @ '' ('' @ tkr @ '') Executive Team Receives Industry Recognition'',
      ''CEO of '' @ cn @ '' ('' @ tkr @ '') Speaks at Industry Conference on Innovation'',
      ''Leadership Strategy at '' @ cn @ '' ('' @ tkr @ '') Focuses on Sustainable Growth'']"

definition social_headlines :: "string \<Rightarrow> string \<Rightarrow> string \<Rightarrow> string list" where
  "social_headlines cn tkr ind =
     [cn @ '' ('' @ tkr @ '') Trending on Social Media After Recent Announcement'',
      ''Social Media Sentiment Strong for '' @ cn @ '' ('' @ tkr @ '')'',
      cn @ '' ('' @ tkr @ '') Social Media Campaign Receives Positive Engagement'',
      ''Online Presence Growing for '' @ cn @ '' ('' @ tkr @ '') in '' @ ind @ '' Space'',
      ''Social Media Influencers Praise '' @ cn @ [CHR 0x27] @ ''s ('' @ tkr @ '') Latest Initiative'']"

definition financial_headlines :: "string \<Rightarrow> string \<Rightarrow> string \<Rightarrow> string list" where
  "financial_headlines cn tkr ind =
     [cn @ '' ('' @ tkr @ '') Reports Quarterly Earnings Above Expectations'',
      ''Analysts Raise Price Target for '' @ cn @ '' ('' @ tkr @ '') Citing Strong Growth'',
      cn @ '' ('' @ tkr @ '') Expands Market Share in '' @ ind @ '' Sector'',
      ''Market Trends Favorable for '' @ cn @ '' ('' @ tkr @ '') This Quarter'',
      ''Investors React to '' @ cn @ [CHR 0x27] @ ''s ('' @ tkr @ '') Latest Strategic Announcements'']"

text \<open>The \<open>if\<close>/\<open>elif\<close> chain that picks the list, in the source's order.\<close>

definition headlines :: "string \<Rightarrow> string option \<Rightarrow> string list" where
  "headlines tkr sq =
     (let cn = fallback_company_name tkr; ind = fallback_industry tkr
      in if truthy sq \<and> str_in ''product'' (lower (the sq)) then product_headlines cn tkr ind
         else if truthy sq \<and> (str_in ''ceo'' (lower (the sq)) \<or> str_in ''leadership'' (lower (the sq)))
           then leadership_headlines cn tkr ind
         else if truthy sq \<and> str_in ''social'' (lower (the sq)) then social_headlines cn tkr ind
         else financial_headlines cn tkr ind)"

definition sources :: "string list" where
  "sources = [''Bloomberg'', ''CNBC'', ''Wall Street Journal'', ''Reuters'', ''Financial Times'']"

definition snippet_theme :: "string \<Rightarrow> string option \<Rightarrow> string" where
  "snippet_theme tkr sq =
     (if truthy sq then the sq else fallback_industry tkr @ '' business strategy'')"

text \<open>The dictionary appended for headline number \<open>i\<close>.\<close>

definition news_item :: "string \<Rightarrow> string option \<Rightarrow> nat \<Rightarrow> string \<Rightarrow> json" where
  "news_item tkr sq i headline =
     JObj
       [(''title'', JStr headline),
        (''snippet'',
           JStr (fallback_company_name tkr @ '' ('' @ tkr @ '') shows promising developments in its ''
                 @ snippet_theme tkr sq
                 @ '' with recent announcements and growing market presence.'')),
        (''source'', JStr (sources ! (i mod length sources))),
        (''link'', JStr (''https://finance.example.com/'' @ lower tkr @ ''/news/'' @ str_nat i))]"

definition get_fallback_news_data :: "string \<Rightarrow> string option \<Rightarrow> json list" where
  "get_fallback_news_data tkr sq =
     map (\<lambda>(i, headline). news_item tkr sq i headline) (enumerate 0 (headlines tkr sq))"

subsection \<open>The deterministic numbers\<close>

text \<open>The local \<open>adjustment\<close> of \<open>get_deterministic_sentiment\<close>: \<open>(hash_value % 20 - 10) / 100\<close>.
  \<open>get_deterministic_sentiment\<close> and \<open>get_deterministic_social_media_mentions\<close> are the numbers
  the two methods return; the methods return them when \<open>.encode()\<close> succeeds on what they hash,
  and \<open>sentiment_call\<close> and \<open>mentions_call\<close> are the calls with that exception.\<close>

definition adjustment :: "env \<Rightarrow> string \<Rightarrow> string \<Rightarrow> real" where
  "adjustment e text seed = of_int (int (md5_int e (text @ seed)) mod 20 - 10) / 100"

definition get_deterministic_sentiment :: "env \<Rightarrow> string \<Rightarrow> string \<Rightarrow> real" where
  "get_deterministic_sentiment e text seed =
     max (min (polarity e text + adjustment e text seed) 1) (- 1)"

definition sentiment_call :: "env \<Rightarrow> string \<Rightarrow> string \<Rightarrow> error + real" where
  "sentiment_call e text seed =
     (case encode (text @ seed) of
        Inl err \<Rightarrow> Inl err
      | Inr b \<Rightarrow> Inr (get_deterministic_sentiment e text seed))"

text \<open>The local \<open>days_back\<close> of \<open>get_deterministic_date\<close>: \<open>hash_value % days + 1\<close>, computed
  once \<open>days\<close> is known not to be zero.\<close>

definition days_back :: "env \<Rightarrow> string \<Rightarrow> string \<Rightarrow> int \<Rightarrow> int" where
  "days_back e tkr hl days = int (md5_int e (tkr @ hl)) mod days + 1"

text \<open>
  \<open>f"{ticker}{headline}".encode()\<close> raises \<open>UnicodeEncodeError\<close> on a lone surrogate;
  \<open>hash_value % days\<close> raises \<open>ZeroDivisionError\<close> when \<open>days\<close> is zero;
  \<open>timedelta(days=n)\<close> raises \<open>OverflowError\<close> when \<open>n\<close> exceeds 999999999 in magnitude, and
  so does the subtraction when the date leaves the years 1 to 9999.
\<close>

definition get_deterministic_date :: "env \<Rightarrow> string \<Rightarrow> string \<Rightarrow> int \<Rightarrow> error + string" where
  "get_deterministic_date e tkr hl days =
     (if has_surrogate (tkr @ hl) then Inl UnicodeEncodeError
      else if days = 0 then Inl ZeroDivisionError
      else let db = days_back e tkr hl days
           in if 999999999 < \<bar>db\<bar> then Inl OverflowError
              else if today e - db < 1 \<or> 3652059 < today e - db then Inl OverflowError
              else Inr (strftime_ymd (today e - db)))"

definition base_mentions :: "env \<Rightarrow> string \<Rightarrow> int" where
  "base_mentions e tkr = int (md5_int e tkr) mod 5000 + 1000"

definition news_factor :: "int \<Rightarrow> real" where
  "news_factor n = max 1 (of_int n / 2)"

definition get_deterministic_social_media_mentions :: "env \<Rightarrow> string \<Rightarrow> int \<Rightarrow> int" where
  "get_deterministic_social_media_mentions e tkr n =
     py_int (of_int (base_mentions e tkr) * news_factor n)"

definition mentions_call :: "env \<Rightarrow> string \<Rightarrow> int \<Rightarrow> error + int" where
  "mentions_call e tkr n =
     (case encode tkr of
        Inl err \<Rightarrow> Inl err
      | Inr b \<Rightarrow> Inr (get_deterministic_social_media_mentions e tkr n))"

record analyst_ratings =
  buy :: int
  hold :: int
  sell :: int

definition get_deterministic_analyst_ratings :: "real \<Rightarrow> analyst_ratings" where
  "get_deterministic_analyst_ratings s =
     (let scaled_sentiment = py_int ((s + 1) * 50);
          buy_ratio = of_int scaled_sentiment / 100;
          sell_ratio = of_int (100 - scaled_sentiment) / 100;
          hold_ratio = 1 - \<bar>s\<bar> / 2;
          total_analysts = 25
      in \<lparr>buy = py_int (total_analysts * buy_ratio),
          hold = py_int (total_analysts * hold_ratio),
          sell = py_int (total_analysts * sell_ratio)\<rparr>)"

subsection \<open>\<open>fetch_stock_news\<close>\<close>

text \<open>\<open>"snippet" in item\<close>: key membership in a dict, substring in a str, membership in a
  list, \<open>TypeError\<close> otherwise.\<close>

definition has_snippet :: "json \<Rightarrow> error + bool" where
  "has_snippet item =
     (case item of
        JObj kvs \<Rightarrow> Inr (map_of kvs ''snippet'' \<noteq> None)
      | JStr s \<Rightarrow> Inr (str_in ''snippet'' s)
      | JArr xs \<Rightarrow> Inr (JStr ''snippet'' \<in> set xs)
      | _ \<Rightarrow> Inl TypeError)"

text \<open>The comprehension \<open>[item for item in ... if "snippet" in item]\<close>.\<close>

fun keep_with_snippet :: "json list \<Rightarrow> error + json list" where
  "keep_with_snippet [] = Inr []"
| "keep_with_snippet (x # xs) =
     (case has_snippet x of
        Inl err \<Rightarrow> Inl err
      | Inr b \<Rightarrow>
          (case keep_with_snippet xs of
             Inl err \<Rightarrow> Inl err
           | Inr ys \<Rightarrow> Inr (if b then x # ys else ys)))"

text \<open>What a \<open>for\<close> over a decoded value visits: the elements of a list, the keys of a dict,
  the characters of a str; anything else is not iterable.\<close>

definition py_iter :: "json \<Rightarrow> error + json list" where
  "py_iter v =
     (case v of
        JArr xs \<Rightarrow> Inr xs
      | JObj kvs \<Rightarrow> Inr (map (\<lambda>kv. JStr (fst kv)) kvs)
      | JStr s \<Rightarrow> Inr (map (\<lambda>c. JStr [c]) s)
      | _ \<Rightarrow> Inl TypeError)"

text \<open>The body of the \<open>try\<close> after \<open>data = response.json()\<close>, up to \<open>return news_items\<close>; the
  \<open>len\<close> is the one in the log line.\<close>

definition extract_news :: "json \<Rightarrow> error + json" where
  "extract_news data =
     (case data of
        JObj kvs \<Rightarrow>
          (let news = dict_get kvs ''news'' (JArr [])
           in case (case map_of kvs ''organic'' of
                      Some organic \<Rightarrow>
                        if py_bool news then Inr news
                        else (case py_iter organic of
                                Inl err \<Rightarrow> Inl err
                              | Inr xs \<Rightarrow>
                                  (case keep_with_snippet xs of
                                     Inl err \<Rightarrow> Inl err
                                   | Inr ys \<Rightarrow> Inr (JArr ys)))
                    | None \<Rightarrow> Inr news) of
                Inl err \<Rightarrow> Inl err
              | Inr news_items \<Rightarrow>
                  (case py_len news_items of
                     Inl err \<Rightarrow> Inl err
                   | Inr n \<Rightarrow> Inr news_items))
      | _ \<Rightarrow> Inl AttributeError)"

definition query :: "string \<Rightarrow> string option \<Rightarrow> string" where
  "query tkr sq =
     (if truthy sq then get_company_name_for_ticker tkr @ '' ('' @ tkr @ '') '' @ the sq
      else tkr @ '' stock financial news analysis'')"

text \<open>\<open>except Exception\<close> takes every exception of the \<open>try\<close> to the fallback data.\<close>

definition fetch_stock_news :: "env \<Rightarrow> tool \<Rightarrow> string \<Rightarrow> string option \<Rightarrow> json" where
  "fetch_stock_news e self tkr sq =
     (case http_post e (serper_api_key self) (query tkr sq) of
        RequestFailed \<Rightarrow> JArr (get_fallback_news_data tkr sq)
      | Payload data \<Rightarrow>
          (case extract_news data of
             Inl err \<Rightarrow> JArr (get_fallback_news_data tkr sq)
           | Inr news_items \<Rightarrow> news_items))"

subsection \<open>\<open>_run\<close>\<close>

record scored_item =
  headline :: json
  source :: json
  date :: string
  sentiment :: string
  sentiment_score :: real
  url :: json
  snippet :: json

record report =
  ticker :: string
  company_name :: string
  search_context :: string
  overall_sentiment_score :: real
  sentiment_label :: string
  news_count :: nat
  social_media_mentions :: int
  analyst_ratings :: analyst_ratings
  news_items :: "scored_item list"

text \<open>
  \<open>news_items[: min(len(news_items), 10)]\<close> and what the loop then visits. A list gives its
  first ten elements and a str its first ten characters; \<open>len\<close> of anything else but a dict
  raises \<open>TypeError\<close>, and a dict cannot be sliced (\<open>TypeError\<close>; \<open>KeyError\<close> from Python 3.12).
\<close>

definition first_ten :: "json \<Rightarrow> error + json list" where
  "first_ten v =
     (case v of
        JArr xs \<Rightarrow> Inr (take (min (length xs) 10) xs)
      | JStr s \<Rightarrow> Inr (map (\<lambda>c. JStr [c]) (take (min (length s) 10) s))
      | _ \<Rightarrow> Inl TypeError)"

definition item_text :: "env \<Rightarrow> (string \<times> json) list \<Rightarrow> string" where
  "item_text e kvs =
     py_str e (dict_get kvs ''title'' (JStr [])) @ '' '' @ py_str e (dict_get kvs ''snippet'' (JStr []))"

definition item_label :: "real \<Rightarrow> string" where
  "item_label s =
     (if 1 / 10 < s then ''positive'' else if s < - (1 / 10) then ''negative'' else ''neutral'')"

definition overall_label :: "real \<Rightarrow> string" where
  "overall_label s =
     (if 3 / 10 < s then ''Bullish'' else if s < - (3 / 10) then ''Bearish'' else ''Neutral'')"

text \<open>One turn of the loop: the entry appended to \<open>processed_news\<close> and the score added to
  \<open>total_sentiment_score\<close>. \<open>item.get\<close> raises \<open>AttributeError\<close> on anything but a dict; the
  sentiment is computed before the date, so its exception comes first.\<close>

definition process_item :: "env \<Rightarrow> string \<Rightarrow> int \<Rightarrow> json \<Rightarrow> error + scored_item \<times> real" where
  "process_item e tkr days item =
     (case item of
        JObj kvs \<Rightarrow>
          (case sentiment_call e (item_text e kvs) tkr of
             Inl err \<Rightarrow> Inl err
           | Inr s \<Rightarrow>
               (case get_deterministic_date e tkr (py_str e (dict_get kvs ''title'' (JStr []))) days of
                  Inl err \<Rightarrow> Inl err
                | Inr d \<Rightarrow>
                    Inr (\<lparr>headline = dict_get kvs ''title'' (JStr ''No title''),
                          source = dict_get kvs ''source'' (JStr ''Unknown''),
                          date = d,
                          sentiment = item_label s,
                          sentiment_score = py_round2 s,
                          url = dict_get kvs ''link'' (JStr []),
                          snippet = dict_get kvs ''snippet'' (JStr ''No content available'')\<rparr>,
                         s)))
      | _ \<Rightarrow> Inl AttributeError)"

text \<open>The loop, with \<open>(processed_news, total_sentiment_score)\<close> as its state.\<close>

fun process_news ::
  "env \<Rightarrow> string \<Rightarrow> int \<Rightarrow> json list \<Rightarrow> scored_item list \<times> real \<Rightarrow> error + scored_item list \<times> real"
where
  "process_news e tkr days [] acc = Inr acc"
| "process_news e tkr days (item # rest) (processed_news, total_score) =
     (case process_item e tkr days item of
        Inl err \<Rightarrow> Inl err
      | Inr (p, s) \<Rightarrow> process_news e tkr days rest (processed_news @ [p], total_score + s))"

definition run :: "env \<Rightarrow> tool \<Rightarrow> string \<Rightarrow> int \<Rightarrow> string option \<Rightarrow> error + report" where
  "run e self tkr days sq =
     (case first_ten (fetch_stock_news e self tkr sq) of
        Inl err \<Rightarrow> Inl err
      | Inr items \<Rightarrow>
          (case process_news e tkr days items ([], 0) of
             Inl err \<Rightarrow> Inl err
           | Inr (processed_news, total_score) \<Rightarrow>
               (case (if processed_news \<noteq> []
                      then Inr (py_round2 (total_score / of_nat (length processed_news)))
                      else sentiment_call e tkr ''fallback'') of
                  Inl err \<Rightarrow> Inl err
                | Inr overall \<Rightarrow>
                    (case mentions_call e tkr (int (length processed_news)) of
                       Inl err \<Rightarrow> Inl err
                     | Inr mentions \<Rightarrow>
                         Inr \<lparr>ticker = tkr,
                              company_name = get_company_name_for_ticker tkr,
                              search_context =
                                (if truthy sq then the sq
                                 else tkr @ '' stock financial news analysis''),
                              overall_sentiment_score = overall,
                              sentiment_label = overall_label overall,
                              news_count = length processed_news,
                              social_media_mentions = mentions,
                              analyst_ratings = get_deterministic_analyst_ratings overall,
                              news_items = processed_news\<rparr>))))"

section \<open>The tradesymphony tool\<close>

text \<open>
  \<open>tradesymphony/tools/finance_tools.py\<close> has a class of the same name with the same
  methods. The six that compute without the network are embedded here from that file,
  each as one definition with its tables and templates inline, as the source has them.
  As above, \<open>ts_get_deterministic_sentiment\<close> and \<open>ts_get_deterministic_social_media_mentions\<close>
  are the numbers returned when \<open>.encode()\<close> succeeds; both files encode the same strings.
\<close>

definition ts_get_deterministic_sentiment :: "env \<Rightarrow> string \<Rightarrow> string \<Rightarrow> real" where
  "ts_get_deterministic_sentiment e text seed =
     (let sentiment = polarity e text;
          hash_value = int (md5_int e (text @ seed));
          adjustment = of_int (hash_value mod 20 - 10) / 100
      in max (min (sentiment + adjustment) 1) (- 1))"

definition ts_get_deterministic_date :: "env \<Rightarrow> string \<Rightarrow> string \<Rightarrow> int \<Rightarrow> error + string" where
  "ts_get_deterministic_date e tkr hl days =
     (if has_surrogate (tkr @ hl) then Inl UnicodeEncodeError
      else
        let hash_value = int (md5_int e (tkr @ hl))
        in if days = 0 then Inl ZeroDivisionError
           else let days_back = hash_value mod days + 1
              in if 999999999 < \<bar>days_back\<bar> then Inl OverflowError
                 else let ordinal = today e - days_back
                      in if ordinal < 1 \<or> 3652059 < ordinal then Inl OverflowError
                         else Inr (strftime_ymd ordinal))"

definition ts_get_deterministic_social_media_mentions :: "env \<Rightarrow> string \<Rightarrow> int \<Rightarrow> int" where
  "ts_get_deterministic_social_media_mentions e tkr n =
     (let ticker_hash = int (md5_int e tkr);
          base_mentions = ticker_hash mod 5000 + 1000;
          news_factor = max 1 (of_int n / 2)
      in py_int (of_int base_mentions * news_factor))"

definition ts_get_deterministic_analyst_ratings :: "real \<Rightarrow> analyst_ratings" where
  "ts_get_deterministic_analyst_ratings s =
     (let scaled_sentiment = py_int ((s + 1) * 50);
          buy_ratio = of_int scaled_sentiment / 100;
          sell_ratio = of_int (100 - scaled_sentiment) / 100;
          hold_ratio = 1 - \<bar>s\<bar> / 2;
          total_analysts = 25
      in \<lparr>buy = py_int (total_analysts * buy_ratio),
          hold = py_int (total_analysts * hold_ratio),
          sell = py_int (total_analysts * sell_ratio)\<rparr>)"

definition ts_get_fallback_news_data :: "string \<Rightarrow> string option \<Rightarrow> json list" where
  "ts_get_fallback_news_data tkr sq =
     (let company_info =
            [(''AAPL'', (''Apple Inc.'', ''Technology/Consumer Electronics'')),
             (''MSFT'', (''Microsoft Corporation'', ''Technology/Software'')),
             (''AMZN'', (''Amazon.com, Inc.'', ''E-commerce/Cloud Computing'')),
             (''GOOGL'', (''Alphabet Inc.'', ''Technology/Internet Services'')),
             (''GOOG'', (''Alphabet Inc.'', ''Technology/Internet Services'')),
             (''META'', (''Meta Platforms, Inc.'', ''Technology/Social Media'')),
             (''TSLA'', (''Tesla, Inc.'', ''Automotive/Clean Energy'')),
             (''NVDA'', (''NVIDIA Corporation'', ''Technology/Semiconductors'')),
             (''JPM'', (''JPMorgan Chase & Co.'', ''Financial Services'')),
             (''V'', (''Visa Inc.'', ''Financial Services/Payments''))];
          cn = (case map_of company_info tkr of Some (n, i) \<Rightarrow> n | None \<Rightarrow> tkr @ '' Corporation'');
          ind = (case map_of company_info tkr of Some (n, i) \<Rightarrow> i | None \<Rightarrow> ''Technology'');
          hls =
            (if truthy sq \<and> str_in ''product'' (lower (the sq)) then
               [cn @ '' ('' @ tkr @ '') Launches New Product Line to Strong Reviews'',
                ''Customer Satisfaction High for '' @ cn @ [CHR 0x27] @ ''s ('' @ tkr @ '') Latest Products'',
                ''Product Innovation Drives Growth at '' @ cn @ '' ('' @ tkr @ '')'',
                ''Market Reception Positive for '' @ cn @ [CHR 0x27] @ ''s ('' @ tkr @ '') Product Strategy'',
                cn @ '' ('' @ tkr @ '') Product Portfolio Expands in '' @ ind @ '' Sector'']
             else if truthy sq \<and> (str_in ''ceo'' (lower (the sq)) \<or> str_in ''leadership'' (lower (the sq))) then
               [cn @ '' ('' @ tkr @ '') CEO Outlines Vision for Company Growth'',
                ''Leadership Changes at '' @ cn @ '' ('' @ tkr @ '') Seen as Positive by Analysts'',
                cn @ '' ('' @ tkr @ '') Executive Team Receives Industry Recognition'',
                ''CEO of '' @ cn @ '' ('' @ tkr @ '') Speaks at Industry Conference on Innovation'',
                ''Leadership Strategy at '' @ cn @ '' ('' @ tkr @ '') Focuses on Sustainable Growth'']
             else if truthy sq \<and> str_in ''social'' (lower (the sq)) then
               [cn @ '' ('' @ tkr @ '') Trending on Social Media After Recent Announcement'',
                ''Social Media Sentiment Strong for '' @ cn @ '' ('' @ tkr @ '')'',
                cn @ '' ('' @ tkr @ '') Social Media Campaign Receives Positive Engagement'',
                ''Online Presence Growing for '' @ cn @ '' ('' @ tkr @ '') in '' @ ind @ '' Space'',
                ''Social Media Influencers Praise '' @ cn @ [CHR 0x27] @ ''s ('' @ tkr @ '') Latest Initiative'']
             else
               [cn @ '' ('' @ tkr @ '') Reports Quarterly Earnings Above Expectations'',
                ''Analysts Raise Price Target for '' @ cn @ '' ('' @ tkr @ '') Citing Strong Growth'',
                cn @ '' ('' @ tkr @ '') Expands Market Share in '' @ ind @ '' Sector'',
                ''Market Trends Favorable for '' @ cn @ '' ('' @ tkr @ '') This Quarter'',
                ''Investors React to '' @ cn @ [CHR 0x27] @ ''s ('' @ tkr @ '') Latest Strategic Announcements'']);
          srcs = [''Bloomberg'', ''CNBC'', ''Wall Street Journal'', ''Reuters'', ''Financial Times''];
          search_context = (if \<not> truthy sq then ''financial performance'' else lower (the sq))
      in map (\<lambda>(i, hl).
                let theme = (if truthy sq then the sq else ind @ '' business strategy'')
                in JObj
                     [(''title'', JStr hl),
                      (''snippet'',
                         JStr (cn @ '' ('' @ tkr @ '') shows promising developments in its '' @ theme
                               @ '' with recent announcements and growing market presence.'')),
                      (''source'', JStr (srcs ! (i mod length srcs))),
                      (''link'', JStr (''https://finance.example.com/'' @ lower tkr @ ''/news/'' @ str_nat i))])
             (enumerate 0 hls))"

definition ts_get_company_name_for_ticker :: "string \<Rightarrow> string" where
  "ts_get_company_name_for_ticker tkr =
     (let company_names =
            [(''AAPL'', ''Apple Inc.''),
             (''MSFT'', ''Microsoft Corporation''),
             (''AMZN'', ''Amazon.com, Inc.''),
             (''GOOGL'', ''Alphabet Inc. (Google)''),
             (''META'', ''Meta Platforms, Inc.''),
             (''TSLA'', ''Tesla, Inc.''),
             (''NVDA'', ''NVIDIA Corporation''),
             (''JPM'', ''JPMorgan Chase & Co.''),
             (''V'', ''Visa Inc.''),
             (''MA'', ''Mastercard Incorporated''),
             (''PYPL'', ''PayPal Holdings, Inc.''),
             (''DIS'', ''The Walt Disney Company''),
             (''NFLX'', ''Netflix, Inc.''),
             (''INTC'', ''Intel Corporation''),
             (''AMD'', ''Advanced Micro Devices, Inc.''),
             (''IBM'', ''International Business Machines Corporation''),
             (''CSCO'', ''Cisco Systems, Inc.''),
             (''ADBE'', ''Adobe Inc.''),
             (''CRM'', ''Salesforce, Inc.''),
             (''ORCL'', ''Oracle Corporation'')]
      in if tkr \<in> set (map fst company_names) then the (map_of company_names tkr)
         else tkr @ '' Corporation'')"

section \<open>Vocabulary of the statements\<close>

text \<open>The string under key \<open>k\<close> of a decoded news item (empty when there is none).\<close>

definition field :: "string \<Rightarrow> json \<Rightarrow> string" where
  "field k v =
     (case v of
        JObj kvs \<Rightarrow> (case map_of kvs k of Some (JStr s) \<Rightarrow> s | _ \<Rightarrow> [])
      | _ \<Rightarrow> [])"

text \<open>The score the loop of \<open>_run\<close> computes for a fetched item: the value of
  \<open>get_deterministic_sentiment(text, ticker)\<close> on the item's title and snippet.\<close>

definition item_score :: "env \<Rightarrow> string \<Rightarrow> json \<Rightarrow> real" where
  "item_score e tkr it =
     (case it of
        JObj kvs \<Rightarrow> get_deterministic_sentiment e (item_text e kvs) tkr
      | _ \<Rightarrow> 0)"

text \<open>A complete report: every field within the range the data model gives it.\<close>

definition well_shaped :: "report \<Rightarrow> bool" where
  "well_shaped r =
     (- 1 \<le> overall_sentiment_score r \<and> overall_sentiment_score r \<le> 1
      \<and> sentiment_label r \<in> {''Bullish'', ''Bearish'', ''Neutral''}
      \<and> news_count r = length (news_items r)
      \<and> news_count r \<le> 10
      \<and> 1000 \<le> social_media_mentions r
      \<and> 0 \<le> buy (analyst_ratings r) \<and> 0 \<le> hold (analyst_ratings r)
      \<and> 0 \<le> sell (analyst_ratings r)
      \<and> list_all (\<lambda>p. sentiment p \<in> {''positive'', ''negative'', ''neutral''}
                       \<and> - 1 \<le> sentiment_score p \<and> sentiment_score p \<le> 1)
            (news_items r))"

section \<open>Sample environments\<close>

text \<open>
  Concrete environments at which the definitions are evaluated. In \<open>offline\<close> the request
  fails, the clock shows 2026-11-04 (ordinal 739924), and simple functions stand for the
  hash and the polarity estimator; \<open>answering data\<close> is the same environment with a request
  that succeeds with the payload \<open>data\<close>. The theorems below hold for every environment.
\<close>

definition offline :: env where
  "offline =
     \<lparr>md5_int = length,
      polarity = (\<lambda>s. 1 / 4),
      str_of = (\<lambda>v. ''None''),
      today = 739924,
      http_post = (\<lambda>key q. RequestFailed)\<rparr>"

definition answering :: "json \<Rightarrow> env" where
  "answering data = offline\<lparr>http_post := (\<lambda>key q. Payload data)\<rparr>"

definition the_tool :: tool where
  "the_tool = \<lparr>serper_api_key = None\<rparr>"

text \<open>Payloads: a response without news, one with three stories and one with twelve.\<close>

definition no_news :: json where
  "no_news = JObj [(''news'', JArr [])]"

definition three_stories :: json where
  "three_stories =
     JObj [(''news'',
            JArr [JObj [(''title'', JStr ''Apple unveils new iPhone''),
                        (''snippet'', JStr ''Shares of Apple rose.''),
                        (''source'', JStr ''Reuters''),
                        (''link'', JStr ''https://news.example.com/1'')],
                  JObj [(''title'', JStr ''AAPL slips on supply worries''),
                        (''snippet'', JStr ''Analysts cut targets.'')],
                  JObj [(''title'', JStr ''Apple services revenue grows'')]])]"

definition twelve_stories :: json where
  "twelve_stories =
     JObj [(''news'',
            JArr (map (\<lambda>i. JObj [(''title'', JStr (''Story '' @ str_nat i)),
                                  (''snippet'', JStr ''Apple (AAPL) shares move'')])
                    [0..<12]))]"

text \<open>
  A polarity estimator that knows three words, for inputs on which double arithmetic is
  exact (\<open>0.5\<close>, \<open>0.1\<close> and \<open>0.0\<close> plus a jitter of \<open>0.0\<close> or \<open>-0.1\<close>) or far from a rounding tie;
  \<open>reading data\<close> is \<open>answering data\<close> with that estimator.
\<close>

definition lexical :: "string \<Rightarrow> real" where
  "lexical s =
     (if str_in ''surges'' s then 1 / 2
      else if str_in ''plunges'' s then - (1 / 2)
      else if str_in ''steady'' s then 1 / 10
      else 0)"

definition reading :: "json \<Rightarrow> env" where
  "reading data = (answering data)\<lparr>polarity := lexical\<rparr>"

text \<open>Two stories each: scores \<open>0.5\<close> and \<open>0.1\<close> (mean \<open>0.3\<close>), \<open>-0.5\<close> and \<open>-0.1\<close> (mean \<open>-0.3\<close>),
  \<open>0.55\<close> and \<open>0.07\<close> (mean \<open>0.31\<close>), \<open>-0.55\<close> and \<open>-0.07\<close> (mean \<open>-0.31\<close>) for the ticker
  \<open>AAPL\<close>.\<close>

definition stories_at_upper :: json where
  "stories_at_upper =
     JObj [(''news'', JArr [JObj [(''title'', JStr ''Apple surges on Mac sales'')],
                            JObj [(''title'', JStr ''Apple shares steady today'')]])]"

definition stories_at_lower :: json where
  "stories_at_lower =
     JObj [(''news'', JArr [JObj [(''title'', JStr ''Apple plunges on tax news'')],
                            JObj [(''title'', JStr ''Apple to report'')]])]"

definition stories_above :: json where
  "stories_above =
     JObj [(''news'', JArr [JObj [(''title'', JStr ''Apple surges on record revenue'')],
                            JObj [(''title'', JStr ''Apple update'')]])]"

definition stories_below :: json where
  "stories_below =
     JObj [(''news'', JArr [JObj [(''title'', JStr ''Apple plunges on tax'')],
                            JObj [(''title'', JStr ''Apple delays phone'')]])]"

text \<open>A response whose one title ends with a lone surrogate (the JSON escape of \<open>U+D83D\<close>
  in the body), and a response whose news list holds a string, not an object.\<close>

definition surrogate_story :: json where
  "surrogate_story = JObj [(''news'', JArr [JObj [(''title'', JStr (''Apple '' @ [CHR 0xFF]))]])]"

definition bare_story :: json where
  "bare_story = JObj [(''news'', JArr [JStr ''Apple stock rises''])]"

text \<open>A hash that is MD5 on the one string the examples with a large \<open>days\<close> need: the
  ticker \<open>AAPL\<close> followed by the first default fallback headline of \<open>AAPL\<close>.\<close>

definition md5_sample :: "string \<Rightarrow> nat" where
  "md5_sample s =
     (if s = ''AAPLApple Inc. (AAPL) Reports Quarterly Earnings Above Expectations''
      then 219738573759257495997172755571527642808
      else length s)"

definition hashing :: env where
  "hashing = offline\<lparr>md5_int := md5_sample\<rparr>"

section \<open>Basic facts\<close>

subsection \<open>The date offset and the date\<close>

lemma days_back_range:
  "1 \<le> days \<Longrightarrow> 1 \<le> days_back e tkr hl days \<and> days_back e tkr hl days \<le> days"
proof -
  assume "1 \<le> days"
  then have pos: "0 < days" by simp
  show ?thesis
    using pos_mod_sign [OF pos, of "int (md5_int e (tkr @ hl))"]
          pos_mod_bound [OF pos, of "int (md5_int e (tkr @ hl))"]
    by (simp add: days_back_def)
qed

text \<open>For a negative \<open>days\<close> Python's \<open>%\<close> has the sign of the divisor: the offset is at most 1
  and the date is today or later.\<close>

lemma days_back_range_neg:
  "days < 0 \<Longrightarrow> days + 2 \<le> days_back e tkr hl days \<and> days_back e tkr hl days \<le> 1"
proof -
  assume neg: "days < 0"
  have "int (md5_int e (tkr @ hl)) mod days \<le> 0" by (rule neg_mod_sign [OF neg])
  moreover have "days < int (md5_int e (tkr @ hl)) mod days" by (rule neg_mod_bound [OF neg])
  ultimately show ?thesis unfolding days_back_def by linarith
qed

lemma has_surrogate_append:
  "has_surrogate (a @ b) \<longleftrightarrow> has_surrogate a \<or> has_surrogate b"
  by (simp add: has_surrogate_def)

lemma digit_clean: "d < 10 \<Longrightarrow> digit d \<noteq> CHR 0xFF"
proof -
  assume "d < 10"
  then have "''0123456789'' ! d \<in> set ''0123456789''" by (intro nth_mem) simp
  then show ?thesis unfolding digit_def by auto
qed

lemma str_nat_clean: "\<not> has_surrogate (str_nat n)"
proof (induction n rule: str_nat.induct)
  case (1 n)
  show ?case
  proof (cases "n < 10")
    case True
    with digit_clean [of n] show ?thesis
      by (simp add: str_nat.simps [of n] has_surrogate_def)
  next
    case False
    with 1 digit_clean [of "n mod 10"] show ?thesis
      by (simp add: str_nat.simps [of n] has_surrogate_def)
  qed
qed

lemma date_Inr:
  "get_deterministic_date e tkr hl days = Inr d \<Longrightarrow>
     d = strftime_ymd (today e - days_back e tkr hl days)"
  by (auto simp: get_deterministic_date_def Let_def split: if_splits)

lemma date_ok:
  assumes "days \<noteq> 0" "days < today e" "1 < today e" "today e \<le> 3652059"
    and "today e - days \<le> 3652061" and "\<not> has_surrogate (tkr @ hl)"
  shows "get_deterministic_date e tkr hl days =
         Inr (strftime_ymd (today e - days_back e tkr hl days))"
proof (cases "1 \<le> days")
  case True
  from days_back_range [OF True, of e tkr hl] assms show ?thesis
    by (simp add: get_deterministic_date_def Let_def)
next
  case False
  with assms(1) have "days < 0" by simp
  from days_back_range_neg [OF this, of e tkr hl] assms(3-5)
  have "\<not> 999999999 < \<bar>days_back e tkr hl days\<bar>"
    and "\<not> (today e - days_back e tkr hl days < 1
            \<or> 3652059 < today e - days_back e tkr hl days)"
    by linarith+
  with assms(1,6) show ?thesis
    by (simp add: get_deterministic_date_def Let_def)
qed

subsection \<open>The loop of \<open>_run\<close>\<close>

lemma process_item_score:
  "process_item e tkr days it = Inr (p, s) \<Longrightarrow>
     s = item_score e tkr it \<and> sentiment p = item_label s \<and> sentiment_score p = py_round2 s"
  by (auto simp: process_item_def item_score_def sentiment_call_def
      split: json.splits sum.splits)

lemma sentiment_call_ok:
  "\<not> has_surrogate text \<Longrightarrow> \<not> has_surrogate seed \<Longrightarrow>
     sentiment_call e text seed = Inr (get_deterministic_sentiment e text seed)"
  by (simp add: sentiment_call_def encode_def has_surrogate_append)

lemma mentions_call_ok:
  "\<not> has_surrogate tkr \<Longrightarrow>
     mentions_call e tkr n = Inr (get_deterministic_social_media_mentions e tkr n)"
  by (simp add: mentions_call_def encode_def)

lemma process_item_ok:
  assumes "days \<noteq> 0" "days < today e" "1 < today e" "today e \<le> 3652059"
    and "today e - days \<le> 3652061"
    and "\<not> has_surrogate tkr" and "\<not> has_surrogate (item_text e kvs)"
  shows "\<exists>p. process_item e tkr days (JObj kvs) = Inr (p, item_score e tkr (JObj kvs))"
proof -
  from assms(6,7) have "\<not> has_surrogate (tkr @ py_str e (dict_get kvs ''title'' (JStr [])))"
    by (simp add: item_text_def has_surrogate_append)
  from date_ok [OF assms(1-5) this] sentiment_call_ok [OF assms(7,6), of e]
  show ?thesis by (simp add: process_item_def item_score_def)
qed

text \<open>What the loop leaves behind when it ends without an exception: the entries it was
  given, then one entry per item in order, and the scores added to the total.\<close>

lemma process_news_char:
  "process_news e tkr days items (acc, t) = Inr (ps, t') \<Longrightarrow>
     list_all2 (\<lambda>it p. process_item e tkr days it = Inr (p, item_score e tkr it))
       items (drop (length acc) ps)
     \<and> take (length acc) ps = acc
     \<and> t' = t + sum_list (map (item_score e tkr) items)"
proof (induction items arbitrary: acc t)
  case Nil
  then show ?case by simp
next
  case (Cons it rest)
  from Cons.prems obtain p s where
    step: "process_item e tkr days it = Inr (p, s)" and
    rest: "process_news e tkr days rest (acc @ [p], t + s) = Inr (ps, t')"
    by (auto split: sum.splits)
  from process_item_score [OF step] have s: "s = item_score e tkr it" by simp
  from Cons.IH [OF rest] have
    ih1: "list_all2 (\<lambda>it p. process_item e tkr days it = Inr (p, item_score e tkr it))
            rest (drop (Suc (length acc)) ps)" and
    ih2: "take (Suc (length acc)) ps = acc @ [p]" and
    ih3: "t' = t + s + sum_list (map (item_score e tkr) rest)"
    by simp_all
  from ih2 have len: "length acc < length ps"
    by (metis length_append_singleton length_take lessI min_less_iff_conj)
  from ih2 len have tk: "take (length acc) ps = acc" and nth: "ps ! length acc = p"
    by (simp_all add: take_Suc_conv_app_nth)
  have "drop (length acc) ps = p # drop (Suc (length acc)) ps"
    using Cons_nth_drop_Suc [OF len] nth by simp
  with ih1 step s tk ih3 show ?case by simp
qed

lemma process_news_ok:
  assumes "days \<noteq> 0" "days < today e" "1 < today e" "today e \<le> 3652059"
    and "today e - days \<le> 3652061"
    and "\<not> has_surrogate tkr"
    and "\<forall>it\<in>set items. \<exists>kvs. it = JObj kvs \<and> \<not> has_surrogate (item_text e kvs)"
  shows "\<exists>ps t'. process_news e tkr days items acc = Inr (ps, t')"
  using assms(7)
proof (induction items arbitrary: acc)
  case Nil
  then show ?case by (cases acc) simp
next
  case (Cons it rest)
  then obtain kvs where it: "it = JObj kvs" and cl: "\<not> has_surrogate (item_text e kvs)"
    by auto
  obtain p where p: "process_item e tkr days it = Inr (p, item_score e tkr it)"
    using process_item_ok [OF assms(1-6) cl] it by blast
  obtain a t where acc: "acc = (a, t)" by (cases acc)
  from Cons.IH [of "(a @ [p], t + item_score e tkr it)"] Cons.prems
  show ?case by (simp add: acc p)
qed

subsection \<open>What \<open>_run\<close> returns\<close>

lemma run_Inr:
  assumes "run e self tkr days sq = Inr r"
  shows "\<exists>items ps t.
           first_ten (fetch_stock_news e self tkr sq) = Inr items
         \<and> process_news e tkr days items ([], 0) = Inr (ps, t)
         \<and> news_items r = ps
         \<and> news_count r = length ps
         \<and> overall_sentiment_score r =
             (if ps \<noteq> [] then py_round2 (t / of_nat (length ps))
              else get_deterministic_sentiment e tkr ''fallback'')
         \<and> sentiment_label r = overall_label (overall_sentiment_score r)
         \<and> analyst_ratings r = get_deterministic_analyst_ratings (overall_sentiment_score r)
         \<and> social_media_mentions r =
             get_deterministic_social_media_mentions e tkr (int (length ps))
         \<and> company_name r = get_company_name_for_ticker tkr
         \<and> ticker r = tkr"
  using assms
  by (auto simp: run_def sentiment_call_def mentions_call_def
      split: sum.splits prod.splits if_splits)

lemma run_scored:
  assumes "run e self tkr days sq = Inr r"
  shows "\<exists>items.
           first_ten (fetch_stock_news e self tkr sq) = Inr items
         \<and> list_all2 (\<lambda>it p. process_item e tkr days it = Inr (p, item_score e tkr it))
              items (news_items r)
         \<and> news_count r = length items
         \<and> overall_sentiment_score r =
             (if items \<noteq> []
              then py_round2 (sum_list (map (item_score e tkr) items) / of_nat (length items))
              else get_deterministic_sentiment e tkr ''fallback'')"
proof -
  from run_Inr [OF assms] obtain items ps t where
    ft: "first_ten (fetch_stock_news e self tkr sq) = Inr items" and
    pn: "process_news e tkr days items ([], 0) = Inr (ps, t)" and
    ni: "news_items r = ps" and nc: "news_count r = length ps" and
    ov: "overall_sentiment_score r =
             (if ps \<noteq> [] then py_round2 (t / of_nat (length ps))
              else get_deterministic_sentiment e tkr ''fallback'')"
    by blast
  from process_news_char [OF pn] have
    l2: "list_all2 (\<lambda>it p. process_item e tkr days it = Inr (p, item_score e tkr it)) items ps"
    and t: "t = sum_list (map (item_score e tkr) items)"
    by simp_all
  from l2 have len: "length items = length ps" by (rule list_all2_lengthD)
  then have emp: "ps \<noteq> [] \<longleftrightarrow> items \<noteq> []" by auto
  show ?thesis
    using ft l2 ni nc ov t len emp by auto
qed

lemma run_ok:
  assumes "days \<noteq> 0" "days < today e" "1 < today e" "today e \<le> 3652059"
    and "today e - days \<le> 3652061"
    and "\<not> has_surrogate tkr"
    and "first_ten (fetch_stock_news e self tkr sq) = Inr items"
    and "\<forall>it\<in>set items. \<exists>kvs. it = JObj kvs \<and> \<not> has_surrogate (item_text e kvs)"
  shows "\<exists>r. run e self tkr days sq = Inr r"
proof -
  from process_news_ok [OF assms(1-6) assms(8), of "([], 0)"]
  obtain ps t where "process_news e tkr days items ([], 0) = Inr (ps, t)" by blast
  with assms(7) show ?thesis
    by (simp add: run_def mentions_call_ok [OF assms(6)]
        sentiment_call_ok [OF assms(6), of "''fallback''"] has_surrogate_def)
qed


lemma sentiment_range:
  "- 1 \<le> get_deterministic_sentiment e text seed \<and> get_deterministic_sentiment e text seed \<le> 1"
  by (simp add: get_deterministic_sentiment_def)

lemma item_score_range: "- 1 \<le> item_score e tkr it \<and> item_score e tkr it \<le> 1"
  using sentiment_range by (simp add: item_score_def split: json.splits)

lemma sum_list_bounds:
  assumes "\<forall>x\<in>set xs. - 1 \<le> f x \<and> f x \<le> (1::real)"
  shows "- real (length xs) \<le> sum_list (map f xs) \<and> sum_list (map f xs) \<le> real (length xs)"
  using assms by (induction xs) auto

lemma py_round2_range:
  assumes "- 1 \<le> x" "x \<le> 1"
  shows "- 1 \<le> py_round2 x \<and> py_round2 x \<le> 1"
proof -
  define f where "f = \<lfloor>x * 100\<rfloor>"
  define d where "d = x * 100 - of_int f"
  from assms have lo: "- 100 \<le> f" unfolding f_def by (simp add: le_floor_iff)
  from assms have hi: "f \<le> 100" unfolding f_def by (simp add: floor_le_iff)
  have d0: "0 \<le> d" unfolding d_def f_def by simp
  have fx: "of_int f + d = x * 100" unfolding d_def by simp
  have top: "d = 0" if "f = 100"
  proof -
    from that fx have "d = x * 100 - 100" by simp
    with assms d0 show ?thesis by simp
  qed
  define g where "g = (if d < 1 / 2 then f else if 1 / 2 < d then f + 1
                       else if even f then f else f + 1)"
  have g: "py_round2 x = of_int g / 100"
    by (simp add: py_round2_def Let_def g_def d_def f_def)
  have "- 100 \<le> g" using lo by (simp add: g_def)
  moreover have "g \<le> 100"
  proof (cases "f = 100")
    case True
    with top show ?thesis by (simp add: g_def)
  next
    case False
    with hi have "f + 1 \<le> 100" by linarith
    with hi show ?thesis by (simp add: g_def)
  qed
  ultimately have "(- 100 :: real) \<le> of_int g" "of_int g \<le> (100 :: real)"
    by linarith+
  then show ?thesis by (simp add: g)
qed

subsection \<open>Mentions and ratings\<close>

lemma py_int_floor: "0 \<le> x \<Longrightarrow> py_int x = \<lfloor>x\<rfloor>"
  by (simp add: py_int_def)

lemma base_mentions_range: "1000 \<le> base_mentions e tkr \<and> base_mentions e tkr \<le> 5999"
proof -
  have "0 \<le> int (md5_int e tkr) mod 5000" "int (md5_int e tkr) mod 5000 < 5000" by simp_all
  then show ?thesis by (simp add: base_mentions_def)
qed

lemma mentions_floor:
  "get_deterministic_social_media_mentions e tkr n =
     \<lfloor>real_of_int (int (md5_int e tkr) mod 5000 + 1000) * max 1 (real_of_int n / 2)\<rfloor>
   \<and> 1000 \<le> get_deterministic_social_media_mentions e tkr n"
proof -
  define b :: real where "b = of_int (base_mentions e tkr)"
  define k :: real where "k = news_factor n"
  have b: "1000 \<le> b" using base_mentions_range [of e tkr] by (simp add: b_def)
  have k: "1 \<le> k" by (simp add: k_def news_factor_def)
  have "1000 * 1 \<le> b * k" using b k by (intro mult_mono) simp_all
  then have bk: "1000 \<le> b * k" by simp
  then have "get_deterministic_social_media_mentions e tkr n = \<lfloor>b * k\<rfloor>"
    by (simp add: get_deterministic_social_media_mentions_def b_def k_def py_int_floor)
  moreover from bk have "1000 \<le> \<lfloor>b * k\<rfloor>" by (simp add: le_floor_iff)
  ultimately show ?thesis by (simp add: b_def k_def base_mentions_def news_factor_def)
qed

lemma ratings_floor:
  assumes "- 1 \<le> s" "s \<le> 1"
  shows "get_deterministic_analyst_ratings s =
           \<lparr>buy = \<lfloor>25 * (real_of_int \<lfloor>(s + 1) * 50\<rfloor> / 100)\<rfloor>,
            hold = \<lfloor>25 * (1 - \<bar>s\<bar> / 2)\<rfloor>,
            sell = \<lfloor>25 * (real_of_int (100 - \<lfloor>(s + 1) * 50\<rfloor>) / 100)\<rfloor>\<rparr>"
proof -
  define c where "c = \<lfloor>(s + 1) * 50\<rfloor>"
  from assms have x0: "0 \<le> (s + 1) * 50" by simp
  then have c0: "0 \<le> c" unfolding c_def by (simp only: zero_le_floor)
  from assms have "(s + 1) * 50 < of_int 100 + 1" by simp
  then have c1: "c \<le> 100" unfolding c_def by (simp only: floor_le_iff)
  have sc: "py_int ((s + 1) * 50) = c" using x0 unfolding c_def by (simp only: py_int_def if_True)
  have b: "(0::real) \<le> 25 * (of_int c / 100)" using c0 by simp
  have l: "(0::real) \<le> 25 * (of_int (100 - c) / 100)" using c1 by simp
  have h: "0 \<le> 25 * (1 - \<bar>s\<bar> / 2)" using assms by simp
  show ?thesis
    unfolding get_deterministic_analyst_ratings_def Let_def sc
      py_int_floor [OF b] py_int_floor [OF l] py_int_floor [OF h]
    unfolding c_def by (rule refl)
qed

subsection \<open>The sample environment\<close>

lemma offline_simps:
  "md5_int offline = length" "polarity offline = (\<lambda>s. 1 / 4)" "str_of offline = (\<lambda>v. ''None'')"
  "today offline = 739924" "http_post offline = (\<lambda>key q. RequestFailed)"
  by (simp_all add: offline_def)


subsection \<open>The fallback data\<close>

lemmas fallback_defs =
  get_fallback_news_data_def headlines_def product_headlines_def leadership_headlines_def
  social_headlines_def financial_headlines_def news_item_def snippet_theme_def sources_def
  fallback_company_name_def fallback_industry_def company_info_def truthy_def lower_def
  lower_char_def digit_def Let_def

lemma headlines_length: "length (headlines tkr sq) = 5"
  by (simp add: headlines_def product_headlines_def leadership_headlines_def
      social_headlines_def financial_headlines_def Let_def)

lemma fallback_length: "length (get_fallback_news_data tkr sq) = 5"
  by (simp add: get_fallback_news_data_def headlines_length)

lemma fallback_titles: "map (field ''title'') (get_fallback_news_data tkr sq) = headlines tkr sq"
  by (simp add: get_fallback_news_data_def news_item_def field_def case_prod_unfold comp_def)

lemma fallback_objects: "\<forall>it\<in>set (get_fallback_news_data tkr sq). \<exists>kvs. it = JObj kvs"
  by (auto simp: get_fallback_news_data_def news_item_def)

text \<open>The generated texts can be encoded when the ticker and the query can.\<close>

lemma company_clean:
  "\<not> has_surrogate tkr \<Longrightarrow>
     \<not> has_surrogate (fallback_company_name tkr) \<and> \<not> has_surrogate (fallback_industry tkr)"
  by (simp add: fallback_company_name_def fallback_industry_def company_info_def
      has_surrogate_def)

lemma headlines_clean:
  assumes "\<not> has_surrogate tkr"
  shows "\<forall>h\<in>set (headlines tkr sq). \<not> has_surrogate h"
  using assms company_clean [OF assms]
  by (simp add: headlines_def product_headlines_def leadership_headlines_def
      social_headlines_def financial_headlines_def Let_def has_surrogate_def)

lemma fallback_clean:
  assumes "\<not> has_surrogate tkr" and "truthy sq \<longrightarrow> \<not> has_surrogate (the sq)"
  shows "\<forall>it\<in>set (get_fallback_news_data tkr sq).
           \<exists>kvs. it = JObj kvs \<and> \<not> has_surrogate (item_text e kvs)"
proof
  fix it assume "it \<in> set (get_fallback_news_data tkr sq)"
  then obtain i h where it: "it = news_item tkr sq i h" and h: "h \<in> set (headlines tkr sq)"
    by (auto simp: get_fallback_news_data_def in_set_enumerate_eq)
  from headlines_clean [OF assms(1), of sq] h have hc: "\<not> has_surrogate h" by blast
  have th: "\<not> has_surrogate (snippet_theme tkr sq)"
    using assms(2) company_clean [OF assms(1)]
    by (simp add: snippet_theme_def has_surrogate_def)
  show "\<exists>kvs. it = JObj kvs \<and> \<not> has_surrogate (item_text e kvs)"
    using hc th assms(1) company_clean [OF assms(1)]
    by (simp add: it news_item_def item_text_def dict_get_def py_str_def has_surrogate_def)
qed

lemma fallback_aapl_ceo:
  "get_fallback_news_data ''AAPL'' (Some ''CEO reputation'') =
     [JObj [(''title'', JStr ''Apple Inc. (AAPL) CEO Outlines Vision for Company Growth''),
            (''snippet'', JStr ''Apple Inc. (AAPL) shows promising developments in its CEO reputation with recent announcements and growing market presence.''),
            (''source'', JStr ''Bloomberg''),
            (''link'', JStr ''https://finance.example.com/aapl/news/0'')],
      JObj [(''title'', JStr ''Leadership Changes at Apple Inc. (AAPL) Seen as Positive by Analysts''),
            (''snippet'', JStr ''Apple Inc. (AAPL) shows promising developments in its CEO reputation with recent announcements and growing market presence.''),
            (''source'', JStr ''CNBC''),
            (''link'', JStr ''https://finance.example.com/aapl/news/1'')],
      JObj [(''title'', JStr ''Apple Inc. (AAPL) Executive Team Receives Industry Recognition''),
            (''snippet'', JStr ''Apple Inc. (AAPL) shows promising developments in its CEO reputation with recent announcements and growing market presence.''),
            (''source'', JStr ''Wall Street Journal''),
            (''link'', JStr ''https://finance.example.com/aapl/news/2'')],
      JObj [(''title'', JStr ''CEO of Apple Inc. (AAPL) Speaks at Industry Conference on Innovation''),
            (''snippet'', JStr ''Apple Inc. (AAPL) shows promising developments in its CEO reputation with recent announcements and growing market presence.''),
            (''source'', JStr ''Reuters''),
            (''link'', JStr ''https://finance.example.com/aapl/news/3'')],
      JObj [(''title'', JStr ''Leadership Strategy at Apple Inc. (AAPL) Focuses on Sustainable Growth''),
            (''snippet'', JStr ''Apple Inc. (AAPL) shows promising developments in its CEO reputation with recent announcements and growing market presence.''),
            (''source'', JStr ''Financial Times''),
            (''link'', JStr ''https://finance.example.com/aapl/news/4'')]]"
  by (simp add: fallback_defs str_nat.simps)

lemma fetch_failed:
  "http_post e (serper_api_key self) (query tkr sq) = RequestFailed \<Longrightarrow>
     fetch_stock_news e self tkr sq = JArr (get_fallback_news_data tkr sq)"
  by (simp add: fetch_stock_news_def)

lemma first_ten_fallback:
  "first_ten (JArr (get_fallback_news_data tkr sq)) = Inr (get_fallback_news_data tkr sq)"
  by (simp add: first_ten_def fallback_length)

lemma fallback_item_headline:
  assumes "it \<in> set (get_fallback_news_data tkr sq)"
    and "process_item e tkr days it = Inr (p, s)"
  shows "headline p = JStr (field ''title'' it)"
proof -
  from assms(1) obtain i hl where "it = news_item tkr sq i hl"
    by (auto simp: get_fallback_news_data_def)
  with assms(2) show ?thesis
    by (auto simp: news_item_def process_item_def field_def dict_get_def Let_def split: sum.splits)
qed

lemma list_all2_map_eq:
  assumes "list_all2 R xs ys" and "\<And>x y. x \<in> set xs \<Longrightarrow> R x y \<Longrightarrow> g y = f x"
  shows "map g ys = map f xs"
  using assms by (induction rule: list_all2_induct) auto

lemma run_fallback_headlines:
  assumes "http_post e (serper_api_key self) (query tkr sq) = RequestFailed"
    and "run e self tkr days sq = Inr r"
  shows "map headline (news_items r) = map JStr (headlines tkr sq) \<and> news_count r = 5"
proof -
  from run_scored [OF assms(2)] fetch_failed [OF assms(1)] first_ten_fallback [of tkr sq]
  have l2: "list_all2 (\<lambda>it p. process_item e tkr days it = Inr (p, item_score e tkr it))
              (get_fallback_news_data tkr sq) (news_items r)"
    and nc: "news_count r = length (get_fallback_news_data tkr sq)"
    by auto
  have "map headline (news_items r) = map (\<lambda>it. JStr (field ''title'' it)) (get_fallback_news_data tkr sq)"
    by (rule list_all2_map_eq [OF l2]) (rule fallback_item_headline)
  also have "\<dots> = map JStr (map (field ''title'') (get_fallback_news_data tkr sq))" by simp
  finally show ?thesis using nc by (simp add: fallback_titles fallback_length)
qed

lemma run_fallback_ok:
  assumes "days \<noteq> 0" "days < today e" "1 < today e" "today e \<le> 3652059"
    and "today e - days \<le> 3652061"
    and "\<not> has_surrogate tkr" and "truthy sq \<longrightarrow> \<not> has_surrogate (the sq)"
    and "http_post e (serper_api_key self) (query tkr sq) = RequestFailed"
  shows "\<exists>r. run e self tkr days sq = Inr r"
  using run_ok [OF assms(1-6), of self sq "get_fallback_news_data tkr sq"]
    fetch_failed [OF assms(8)] first_ten_fallback [of tkr sq]
    fallback_clean [OF assms(6,7), of e]
  by simp

lemma goog_headlines: "list_all (str_in ''Alphabet Inc.'') (headlines ''GOOG'' sq)"
  by (simp add: headlines_def product_headlines_def leadership_headlines_def
      social_headlines_def financial_headlines_def fallback_company_name_def
      fallback_industry_def company_info_def Let_def)

subsection \<open>Requests that succeed\<close>

lemma answering_simps:
  "md5_int (answering data) = length" "polarity (answering data) = (\<lambda>s. 1 / 4)"
  "str_of (answering data) = (\<lambda>v. ''None'')" "today (answering data) = 739924"
  "http_post (answering data) = (\<lambda>key q. Payload data)"
  by (simp_all add: answering_def offline_def)

lemma fetch_no_news: "fetch_stock_news (answering no_news) self tkr sq = JArr []"
  by (simp add: fetch_stock_news_def answering_simps no_news_def extract_news_def dict_get_def
      py_len_def)

lemma fetch_three:
  "fetch_stock_news (answering three_stories) self tkr sq =
     JArr [JObj [(''title'', JStr ''Apple unveils new iPhone''),
                 (''snippet'', JStr ''Shares of Apple rose.''),
                 (''source'', JStr ''Reuters''),
                 (''link'', JStr ''https://news.example.com/1'')],
           JObj [(''title'', JStr ''AAPL slips on supply worries''),
                 (''snippet'', JStr ''Analysts cut targets.'')],
           JObj [(''title'', JStr ''Apple services revenue grows'')]]"
  by (simp add: fetch_stock_news_def answering_simps three_stories_def extract_news_def
      dict_get_def py_len_def)

lemma fetch_twelve:
  "fetch_stock_news (answering twelve_stories) self tkr sq =
     JArr (map (\<lambda>i. JObj [(''title'', JStr (''Story '' @ str_nat i)),
                          (''snippet'', JStr ''Apple (AAPL) shares move'')])
             [0..<12])"
  by (simp add: fetch_stock_news_def answering_simps twelve_stories_def extract_news_def
      dict_get_def py_len_def del: upt_rec_numeral)

lemma first_ten_JArr: "first_ten (JArr xs) = Inr (take 10 xs)"
  by (simp add: first_ten_def min_def)




lemma item_label_iff:
  "(item_label s = ''positive'' \<longleftrightarrow> 1 / 10 < s)
   \<and> (item_label s = ''negative'' \<longleftrightarrow> s < - (1 / 10))
   \<and> (item_label s = ''neutral'' \<longleftrightarrow> - (1 / 10) \<le> s \<and> s \<le> 1 / 10)"
  by (auto simp: item_label_def)

lemma overall_label_iff:
  "(overall_label s = ''Bullish'' \<longleftrightarrow> 3 / 10 < s)
   \<and> (overall_label s = ''Bearish'' \<longleftrightarrow> s < - (3 / 10))
   \<and> (overall_label s = ''Neutral'' \<longleftrightarrow> - (3 / 10) \<le> s \<and> s \<le> 3 / 10)"
  by (auto simp: overall_label_def)

subsection \<open>Responses with two stories\<close>

lemma reading_simps:
  "md5_int (reading data) = length" "polarity (reading data) = lexical"
  "str_of (reading data) = (\<lambda>v. ''None'')" "today (reading data) = 739924"
  "http_post (reading data) = (\<lambda>key q. Payload data)"
  by (simp_all add: reading_def answering_def offline_def)

lemma fetch_news_list:
  "http_post e (serper_api_key self) (query tkr sq) = Payload (JObj [(''news'', JArr (x # xs))]) \<Longrightarrow>
     fetch_stock_news e self tkr sq = JArr (x # xs)"
  by (simp add: fetch_stock_news_def extract_news_def dict_get_def py_len_def py_bool_def)

lemma title_score:
  "item_score e tkr (JObj [(''title'', JStr t)]) = get_deterministic_sentiment e (t @ '' '') tkr"
  by (simp add: item_score_def item_text_def dict_get_def py_str_def)

lemma title_text: "item_text e [(''title'', JStr t)] = t @ '' ''"
  by (simp add: item_text_def dict_get_def py_str_def)

lemma run_two:
  assumes "days \<noteq> 0" "days < today e" "1 < today e" "today e \<le> 3652059"
    and "today e - days \<le> 3652061"
    and "\<not> has_surrogate tkr" "\<not> has_surrogate a" "\<not> has_surrogate b"
    and f: "fetch_stock_news e self tkr sq =
              JArr [JObj [(''title'', JStr a)], JObj [(''title'', JStr b)]]"
  shows "\<exists>r p q. run e self tkr days sq = Inr r \<and> news_items r = [p, q]
       \<and> sentiment_score p = py_round2 (get_deterministic_sentiment e (a @ '' '') tkr)
       \<and> sentiment_score q = py_round2 (get_deterministic_sentiment e (b @ '' '') tkr)
       \<and> overall_sentiment_score r =
           py_round2 ((get_deterministic_sentiment e (a @ '' '') tkr
                       + get_deterministic_sentiment e (b @ '' '') tkr) / 2)"
proof -
  let ?xs = "[JObj [(''title'', JStr a)], JObj [(''title'', JStr b)]]"
  have ft: "first_ten (fetch_stock_news e self tkr sq) = Inr ?xs"
    by (simp add: f first_ten_JArr)
  have cl: "\<forall>it\<in>set ?xs. \<exists>kvs. it = JObj kvs \<and> \<not> has_surrogate (item_text e kvs)"
    using assms(7,8) by (simp add: title_text has_surrogate_def)
  from run_ok [OF assms(1-6) ft cl] obtain r where r: "run e self tkr days sq = Inr r"
    by blast
  from run_scored [OF r] ft have
    l2: "list_all2 (\<lambda>it p. process_item e tkr days it = Inr (p, item_score e tkr it))
           ?xs (news_items r)" and
    ov: "overall_sentiment_score r =
           py_round2 (sum_list (map (item_score e tkr) ?xs) / of_nat (length ?xs))"
    by auto
  from l2 obtain p q where pq: "news_items r = [p, q]"
    and p: "process_item e tkr days (JObj [(''title'', JStr a)])
              = Inr (p, item_score e tkr (JObj [(''title'', JStr a)]))"
    and q: "process_item e tkr days (JObj [(''title'', JStr b)])
              = Inr (q, item_score e tkr (JObj [(''title'', JStr b)]))"
    by (auto simp: list_all2_Cons1)
  from process_item_score [OF p] process_item_score [OF q] ov r pq
  show ?thesis by (simp add: title_score)
qed

lemma lexical_scores:
  "get_deterministic_sentiment (reading d) ''Apple surges on Mac sales '' ''AAPL'' = 1 / 2"
  "get_deterministic_sentiment (reading d) ''Apple shares steady today '' ''AAPL'' = 1 / 10"
  "get_deterministic_sentiment (reading d) ''Apple plunges on tax news '' ''AAPL'' = - (1 / 2)"
  "get_deterministic_sentiment (reading d) ''Apple to report '' ''AAPL'' = - (1 / 10)"
  "get_deterministic_sentiment (reading d) ''Apple surges on record revenue '' ''AAPL'' = 11 / 20"
  "get_deterministic_sentiment (reading d) ''Apple update '' ''AAPL'' = 7 / 100"
  "get_deterministic_sentiment (reading d) ''Apple plunges on tax '' ''AAPL'' = - (11 / 20)"
  "get_deterministic_sentiment (reading d) ''Apple delays phone '' ''AAPL'' = - (7 / 100)"
  "get_deterministic_sentiment (reading d) ''AAPL'' ''fallback'' = 1 / 50"
  by (simp_all add: get_deterministic_sentiment_def adjustment_def reading_simps lexical_def)

lemma py_round2_examples:
  "py_round2 (1 / 2) = 1 / 2" "py_round2 (1 / 10) = 1 / 10"
  "py_round2 (- (1 / 2)) = - (1 / 2)" "py_round2 (- (1 / 10)) = - (1 / 10)"
  "py_round2 (11 / 20) = 11 / 20" "py_round2 (7 / 100) = 7 / 100"
  "py_round2 (- (11 / 20)) = - (11 / 20)" "py_round2 (- (7 / 100)) = - (7 / 100)"
  "py_round2 (3 / 10) = 3 / 10" "py_round2 (- (3 / 10)) = - (3 / 10)"
  "py_round2 (31 / 100) = 31 / 100" "py_round2 (- (31 / 100)) = - (31 / 100)"
  by (simp_all add: py_round2_def Let_def)

subsection \<open>Every returned report is complete\<close>

lemma ratings_nonneg:
  assumes "- 1 \<le> s" "s \<le> 1"
  shows "0 \<le> buy (get_deterministic_analyst_ratings s)
       \<and> 0 \<le> hold (get_deterministic_analyst_ratings s)
       \<and> 0 \<le> sell (get_deterministic_analyst_ratings s)"
proof -
  define c where "c = \<lfloor>(s + 1) * 50\<rfloor>"
  from assms have "0 \<le> (s + 1) * 50" by simp
  then have c0: "0 \<le> c" unfolding c_def by (simp only: zero_le_floor)
  from assms have "(s + 1) * 50 < of_int 100 + 1" by simp
  then have c1: "c \<le> 100" unfolding c_def by (simp only: floor_le_iff)
  have b: "(0::real) \<le> 25 * (of_int c / 100)" using c0 by simp
  have l: "(0::real) \<le> 25 * (of_int (100 - c) / 100)" using c1 by simp
  have h: "0 \<le> 25 * (1 - \<bar>s\<bar> / 2)" using assms by simp
  have "0 \<le> \<lfloor>25 * (real_of_int c / 100)\<rfloor>" "0 \<le> \<lfloor>25 * (1 - \<bar>s\<bar> / 2)\<rfloor>"
    "0 \<le> \<lfloor>25 * (real_of_int (100 - c) / 100)\<rfloor>"
    using b l h by (simp_all only: zero_le_floor)
  then show ?thesis
    unfolding ratings_floor [OF assms] c_def by simp
qed

lemma overall_label_cases: "overall_label s \<in> {''Bullish'', ''Bearish'', ''Neutral''}"
  by (simp add: overall_label_def)

lemma item_label_cases: "item_label s \<in> {''positive'', ''negative'', ''neutral''}"
  by (simp add: item_label_def)

lemma mean_range:
  assumes "xs \<noteq> []"
  shows "- 1 \<le> sum_list (map (item_score e tkr) xs) / real (length xs)
       \<and> sum_list (map (item_score e tkr) xs) / real (length xs) \<le> 1"
proof -
  have n: "0 < real (length xs)" using assms by simp
  from sum_list_bounds [of xs "item_score e tkr"] item_score_range
  have "- real (length xs) \<le> sum_list (map (item_score e tkr) xs)"
       "sum_list (map (item_score e tkr) xs) \<le> real (length xs)"
    by blast+
  with n show ?thesis by (simp add: pos_le_divide_eq pos_divide_le_eq)
qed

lemma run_well_shaped:
  assumes "run e self tkr days sq = Inr r"
  shows "well_shaped r"
proof -
  from run_scored [OF assms] obtain items where
    ft: "first_ten (fetch_stock_news e self tkr sq) = Inr items" and
    l2: "list_all2 (\<lambda>it p. process_item e tkr days it = Inr (p, item_score e tkr it))
           items (news_items r)" and
    nc: "news_count r = length items" and
    ov: "overall_sentiment_score r =
             (if items \<noteq> []
              then py_round2 (sum_list (map (item_score e tkr) items) / of_nat (length items))
              else get_deterministic_sentiment e tkr ''fallback'')"
    by blast
  from run_Inr [OF assms] have
    lab: "sentiment_label r = overall_label (overall_sentiment_score r)" and
    rat: "analyst_ratings r = get_deterministic_analyst_ratings (overall_sentiment_score r)" and
    men: "social_media_mentions r =
            get_deterministic_social_media_mentions e tkr (int (length (news_items r)))"
    by auto
  have rng: "- 1 \<le> overall_sentiment_score r \<and> overall_sentiment_score r \<le> 1"
  proof (cases "items = []")
    case True
    with ov sentiment_range [of e tkr "''fallback''"] show ?thesis by simp
  next
    case False
    from mean_range [OF False, of e tkr] py_round2_range ov False show ?thesis by simp
  qed
  from l2 have len: "length items = length (news_items r)" by (rule list_all2_lengthD)
  have le: "length items \<le> 10"
    using ft by (auto simp: first_ten_def split: json.splits)
  have each: "list_all (\<lambda>p. sentiment p \<in> {''positive'', ''negative'', ''neutral''}
                       \<and> - 1 \<le> sentiment_score p \<and> sentiment_score p \<le> 1) (news_items r)"
    unfolding list_all_iff
  proof
    fix p assume "p \<in> set (news_items r)"
    with l2 obtain it where "process_item e tkr days it = Inr (p, item_score e tkr it)"
      by (auto simp: list_all2_conv_all_nth in_set_conv_nth)
    from process_item_score [OF this] item_label_cases [of "item_score e tkr it"]
      py_round2_range [of "item_score e tkr it"] item_score_range [of e tkr it]
    show "sentiment p \<in> {''positive'', ''negative'', ''neutral''}
                       \<and> - 1 \<le> sentiment_score p \<and> sentiment_score p \<le> 1"
      by simp
  qed
  have m: "1000 \<le> social_media_mentions r"
    using mentions_floor [THEN conjunct2, of e tkr "int (length (news_items r))"] men
    by (simp only:)
  show ?thesis
    unfolding well_shaped_def
    using rng lab overall_label_cases [of "overall_sentiment_score r"] nc len le each m
      ratings_nonneg [of "overall_sentiment_score r"] rat
    by simp
qed

text \<open>Outside the range the truncation of int is not the floor.\<close>

lemma ratings_outside_range:
  "get_deterministic_analyst_ratings (- (3 / 2)) = \<lparr>buy = - 6, hold = 6, sell = 31\<rparr>
   \<and> \<lfloor>25 * (real_of_int \<lfloor>(- (3 / 2) + 1) * 50 :: real\<rfloor> / 100) :: real\<rfloor> = - 7"
  by (simp add: get_deterministic_analyst_ratings_def py_int_def Let_def)

subsection \<open>Exceptions that reach the caller\<close>

lemma process_news_days_zero:
  assumes "items \<noteq> []" and "\<not> has_surrogate tkr"
    and "\<forall>it\<in>set items. \<exists>kvs. it = JObj kvs \<and> \<not> has_surrogate (item_text e kvs)"
  shows "process_news e tkr 0 items acc = Inl ZeroDivisionError"
proof -
  from assms(1,3) obtain kvs rest where items: "items = JObj kvs # rest"
    and cl: "\<not> has_surrogate (item_text e kvs)"
    by (cases items) auto
  from cl assms(2) have "\<not> has_surrogate (tkr @ py_str e (dict_get kvs ''title'' (JStr [])))"
    by (simp add: item_text_def has_surrogate_append)
  then have d: "get_deterministic_date e tkr (py_str e (dict_get kvs ''title'' (JStr []))) 0
                  = Inl ZeroDivisionError"
    by (simp add: get_deterministic_date_def)
  obtain ps t where acc: "acc = (ps, t)" by (cases acc)
  show ?thesis
    by (simp add: items acc process_item_def d sentiment_call_ok [OF cl assms(2)])
qed

lemma run_fallback_days_zero:
  assumes "http_post e (serper_api_key self) (query tkr sq) = RequestFailed"
    and "\<not> has_surrogate tkr" and "truthy sq \<longrightarrow> \<not> has_surrogate (the sq)"
  shows "run e self tkr 0 sq = Inl ZeroDivisionError"
proof -
  have ne: "get_fallback_news_data tkr sq \<noteq> []"
    using fallback_length [of tkr sq] by auto
  show ?thesis
    by (simp add: run_def fetch_failed [OF assms(1)] first_ten_fallback
        process_news_days_zero [OF ne assms(2) fallback_clean [OF assms(2,3)]])
qed

lemma process_news_first_error:
  "process_item e tkr days it = Inl err \<Longrightarrow> process_news e tkr days (it # rest) acc = Inl err"
  by (cases acc) simp

lemma run_first_error:
  assumes "fetch_stock_news e self tkr sq = JArr (it # rest)"
    and "process_item e tkr days it = Inl err"
  shows "run e self tkr days sq = Inl err"
proof -
  have ft: "first_ten (fetch_stock_news e self tkr sq) = Inr (it # take 9 rest)"
    by (simp add: assms(1) first_ten_JArr)
  have pn: "process_news e tkr days (it # take 9 rest) ([], 0) = Inl err"
    by (rule process_news_first_error [OF assms(2)])
  show ?thesis
    unfolding run_def ft by (simp add: pn del: process_news.simps)
qed

lemma fallback_first:
  "\<exists>h rest. get_fallback_news_data tkr sq = news_item tkr sq 0 h # rest \<and> h \<in> set (headlines tkr sq)"
proof -
  from headlines_length [of tkr sq] obtain h hs where hh: "headlines tkr sq = h # hs"
    by (cases "headlines tkr sq") auto
  then have "get_fallback_news_data tkr sq =
      news_item tkr sq 0 h # map (\<lambda>(i, headline). news_item tkr sq i headline) (enumerate 1 hs)"
    by (simp add: get_fallback_news_data_def)
  moreover have "h \<in> set (headlines tkr sq)" by (simp add: hh)
  ultimately show ?thesis by blast
qed

text \<open>Every fallback item carries the ticker, and the query when there is one, in its
  snippet: a ticker or a query that cannot be encoded stops the first turn of the loop.\<close>

lemma run_fallback_surrogate:
  assumes "http_post e (serper_api_key self) (query tkr sq) = RequestFailed"
    and "has_surrogate tkr \<or> (truthy sq \<and> has_surrogate (the sq))"
  shows "run e self tkr days sq = Inl UnicodeEncodeError"
proof -
  from fallback_first [of tkr sq] obtain h rest where
    fb: "get_fallback_news_data tkr sq = news_item tkr sq 0 h # rest" by blast
  have "process_item e tkr days (news_item tkr sq 0 h) = Inl UnicodeEncodeError"
    using assms(2)
    by (auto simp: news_item_def process_item_def sentiment_call_def encode_def item_text_def
        dict_get_def py_str_def snippet_theme_def has_surrogate_def)
  with fetch_failed [OF assms(1)] fb show ?thesis
    by (intro run_first_error [of e self tkr sq "news_item tkr sq 0 h" rest]) simp_all
qed

lemma hashing_simps:
  "md5_int hashing = md5_sample" "polarity hashing = (\<lambda>s. 1 / 4)" "str_of hashing = (\<lambda>v. ''None'')"
  "today hashing = 739924" "http_post hashing = (\<lambda>key q. RequestFailed)"
  by (simp_all add: hashing_def offline_def)

lemma fallback_aapl_first:
  "\<exists>rest. get_fallback_news_data ''AAPL'' None =
     JObj [(''title'', JStr ''Apple Inc. (AAPL) Reports Quarterly Earnings Above Expectations''),
           (''snippet'', JStr ''Apple Inc. (AAPL) shows promising developments in its Technology/Consumer Electronics business strategy with recent announcements and growing market presence.''),
           (''source'', JStr ''Bloomberg''),
           (''link'', JStr ''https://finance.example.com/aapl/news/0'')] # rest"
  by (simp add: fallback_defs financial_headlines_def str_nat.simps)

lemma hashing_days_back:
  "days_back hashing ''AAPL''
     ''Apple Inc. (AAPL) Reports Quarterly Earnings Above Expectations'' 2000000 = 1642809"
  "days_back hashing ''AAPL''
     ''Apple Inc. (AAPL) Reports Quarterly Earnings Above Expectations'' (- 100000000) = - 72357191"
  by (simp_all add: days_back_def hashing_simps md5_sample_def)

lemma hashing_overflow:
  assumes "days = 2000000 \<or> days = - 100000000"
  shows "run hashing the_tool ''AAPL'' days None = Inl OverflowError"
proof -
  from fallback_aapl_first obtain rest where
    fb: "get_fallback_news_data ''AAPL'' None =
     JObj [(''title'', JStr ''Apple Inc. (AAPL) Reports Quarterly Earnings Above Expectations''),
           (''snippet'', JStr ''Apple Inc. (AAPL) shows promising developments in its Technology/Consumer Electronics business strategy with recent announcements and growing market presence.''),
           (''source'', JStr ''Bloomberg''),
           (''link'', JStr ''https://finance.example.com/aapl/news/0'')] # rest"
    by blast
  have f: "fetch_stock_news hashing the_tool ''AAPL'' None = JArr (get_fallback_news_data ''AAPL'' None)"
    by (rule fetch_failed) (simp add: hashing_simps)
  have d: "get_deterministic_date hashing ''AAPL''
             ''Apple Inc. (AAPL) Reports Quarterly Earnings Above Expectations'' days
           = Inl OverflowError"
    using assms
    by (auto simp: get_deterministic_date_def hashing_days_back hashing_simps has_surrogate_def)
  have "process_item hashing ''AAPL'' days
     (JObj [(''title'', JStr ''Apple Inc. (AAPL) Reports Quarterly Earnings Above Expectations''),
           (''snippet'', JStr ''Apple Inc. (AAPL) shows promising developments in its Technology/Consumer Electronics business strategy with recent announcements and growing market presence.''),
           (''source'', JStr ''Bloomberg''),
           (''link'', JStr ''https://finance.example.com/aapl/news/0'')]) = Inl OverflowError"
    by (simp add: process_item_def sentiment_call_def encode_def item_text_def dict_get_def
        py_str_def has_surrogate_def d)
  with f fb show ?thesis
    by (intro run_first_error [where rest = rest]) simp_all
qed

lemma surrogate_story_raises:
  "run (answering surrogate_story) the_tool ''AAPL'' 30 None = Inl UnicodeEncodeError"
proof -
  have f: "fetch_stock_news (answering surrogate_story) the_tool ''AAPL'' None =
             JArr [JObj [(''title'', JStr (''Apple '' @ [CHR 0xFF]))]]"
    by (rule fetch_news_list) (simp add: answering_simps surrogate_story_def)
  have "process_item (answering surrogate_story) ''AAPL'' 30
          (JObj [(''title'', JStr (''Apple '' @ [CHR 0xFF]))]) = Inl UnicodeEncodeError"
    by (simp add: process_item_def sentiment_call_def encode_def item_text_def dict_get_def
        py_str_def has_surrogate_def)
  with f show ?thesis by (intro run_first_error [where rest = "[]"]) simp_all
qed

lemma bare_story_raises:
  "run (answering bare_story) the_tool ''AAPL'' 30 None = Inl AttributeError"
proof -
  have f: "fetch_stock_news (answering bare_story) the_tool ''AAPL'' None =
             JArr [JStr ''Apple stock rises'']"
    by (rule fetch_news_list) (simp add: answering_simps bare_story_def)
  have "process_item (answering bare_story) ''AAPL'' 30 (JStr ''Apple stock rises'')
          = Inl AttributeError"
    by (simp add: process_item_def)
  with f show ?thesis by (intro run_first_error [where rest = "[]"]) simp_all
qed

subsection \<open>The clock\<close>

lemma days_back_one: "days_back e tkr hl 1 = 1"
  by (simp add: days_back_def)

lemma date_one_day:
  assumes "1 < today e" "today e \<le> 3652059" "\<not> has_surrogate (tkr @ hl)"
  shows "get_deterministic_date e tkr hl 1 = Inr (strftime_ymd (today e - 1))"
  using date_ok [of 1 e tkr hl] assms by (simp add: days_back_one)

lemma process_item_date_one_day:
  assumes "process_item e tkr 1 it = Inr (p, s)"
  shows "date p = strftime_ymd (today e - 1)"
  using assms
  by (auto simp: process_item_def days_back_one dest!: date_Inr split: json.splits sum.splits)

lemma run_dates_one_day:
  assumes "run e self tkr 1 sq = Inr r"
  shows "map date (news_items r) = replicate (news_count r) (strftime_ymd (today e - 1))"
proof -
  from run_scored [OF assms] obtain items where
    l2: "list_all2 (\<lambda>it p. process_item e tkr 1 it = Inr (p, item_score e tkr it))
           items (news_items r)" and
    nc: "news_count r = length items"
    by blast
  have "map date (news_items r) = map (\<lambda>it. strftime_ymd (today e - 1)) items"
    by (rule list_all2_map_eq [OF l2]) (rule process_item_date_one_day)
  then show ?thesis by (simp add: nc map_replicate_const)
qed

lemma date_2026_11_03: "strftime_ymd 739923 = ''2026-11-03''"
  by code_simp

lemma date_2026_11_04: "strftime_ymd 739924 = ''2026-11-04''"
  by code_simp

text \<open>What does not depend on the clock, and what is the same on the same day: the
  environments \<open>e1\<close> and \<open>e2\<close> stand for two runs with the same libraries.\<close>

lemma derived_numbers_reproducible:
  assumes "md5_int e1 = md5_int e2" "polarity e1 = polarity e2"
  shows "adjustment e1 = adjustment e2"
    and "days_back e1 = days_back e2"
    and "base_mentions e1 = base_mentions e2"
  by (intro ext, simp add: adjustment_def days_back_def base_mentions_def assms)+

lemma env_cong:
  assumes "md5_int e1 = md5_int e2" "polarity e1 = polarity e2" "str_of e1 = str_of e2"
    "today e1 = today e2"
  shows "py_str e1 = py_str e2"
    and "item_text e1 = item_text e2"
    and "get_deterministic_sentiment e1 = get_deterministic_sentiment e2"
    and "get_deterministic_date e1 = get_deterministic_date e2"
    and "get_deterministic_social_media_mentions e1 = get_deterministic_social_media_mentions e2"
    and "sentiment_call e1 = sentiment_call e2"
    and "mentions_call e1 = mentions_call e2"
proof -
  show p: "py_str e1 = py_str e2"
    by (intro ext) (simp add: py_str_def assms(3) split: json.splits)
  show "item_text e1 = item_text e2"
    by (intro ext) (simp add: item_text_def p)
  show s: "get_deterministic_sentiment e1 = get_deterministic_sentiment e2"
    by (intro ext) (simp add: get_deterministic_sentiment_def adjustment_def assms(1,2))
  show "get_deterministic_date e1 = get_deterministic_date e2"
    by (intro ext) (simp add: get_deterministic_date_def days_back_def Let_def assms(1,4))
  show m: "get_deterministic_social_media_mentions e1 = get_deterministic_social_media_mentions e2"
    by (intro ext)
      (simp add: get_deterministic_social_media_mentions_def base_mentions_def assms(1))
  show "sentiment_call e1 = sentiment_call e2"
    by (intro ext) (simp add: sentiment_call_def s split: sum.splits)
  show "mentions_call e1 = mentions_call e2"
    by (intro ext) (simp add: mentions_call_def m split: sum.splits)
qed

lemma process_item_cong:
  assumes "md5_int e1 = md5_int e2" "polarity e1 = polarity e2" "str_of e1 = str_of e2"
    "today e1 = today e2"
  shows "process_item e1 tkr days it = process_item e2 tkr days it"
  by (simp only: process_item_def env_cong [OF assms])

lemma process_news_cong:
  assumes "md5_int e1 = md5_int e2" "polarity e1 = polarity e2" "str_of e1 = str_of e2"
    "today e1 = today e2"
  shows "process_news e1 tkr days items acc = process_news e2 tkr days items acc"
proof (induction items arbitrary: acc)
  case Nil
  show ?case by simp
next
  case (Cons it rest)
  obtain ps t where acc: "acc = (ps, t)" by (cases acc)
  show ?case
    by (simp add: acc process_item_cong [OF assms] Cons.IH split: sum.splits)
qed

lemma run_same_clock:
  assumes "md5_int e1 = md5_int e2" "polarity e1 = polarity e2" "str_of e1 = str_of e2"
    "today e1 = today e2"
    and "http_post e1 (serper_api_key self1) (query tkr sq) = RequestFailed"
    and "http_post e2 (serper_api_key self2) (query tkr sq) = RequestFailed"
  shows "run e1 self1 tkr days sq = run e2 self2 tkr days sq"
proof -
  have p: "process_news e1 tkr days = process_news e2 tkr days"
    by (intro ext) (rule process_news_cong [OF assms(1-4)])
  show ?thesis
    by (simp only: run_def fetch_failed [OF assms(5)] fetch_failed [OF assms(6)]
        env_cong [OF assms(1-4)] p)
qed

section \<open>The two implementations agree\<close>

lemma ts_sentiment_eq:
  "ts_get_deterministic_sentiment e text seed = get_deterministic_sentiment e text seed"
  by (simp add: ts_get_deterministic_sentiment_def get_deterministic_sentiment_def
      adjustment_def Let_def)

lemma ts_date_eq:
  "ts_get_deterministic_date e tkr hl days = get_deterministic_date e tkr hl days"
  by (simp add: ts_get_deterministic_date_def get_deterministic_date_def days_back_def Let_def)

lemma ts_mentions_eq:
  "ts_get_deterministic_social_media_mentions e tkr n =
   get_deterministic_social_media_mentions e tkr n"
  by (simp add: ts_get_deterministic_social_media_mentions_def
      get_deterministic_social_media_mentions_def base_mentions_def news_factor_def Let_def)

lemma ts_ratings_eq:
  "ts_get_deterministic_analyst_ratings s = get_deterministic_analyst_ratings s"
  by (simp add: ts_get_deterministic_analyst_ratings_def get_deterministic_analyst_ratings_def)

text \<open>\<open>d[k] if k in d else dflt\<close> is \<open>d.get(k, dflt)\<close>.\<close>

lemma get_or_default:
  "(if k \<in> set (map fst kvs) then the (map_of kvs k) else d) =
   (case map_of kvs k of Some v \<Rightarrow> v | None \<Rightarrow> d)"
proof (cases "map_of kvs k")
  case None
  then have "k \<notin> fst ` set kvs" by (simp add: map_of_eq_None_iff)
  with None show ?thesis by simp
next
  case (Some v)
  then have "k \<in> fst ` set kvs" using map_of_eq_None_iff [of kvs k] by auto
  with Some show ?thesis by simp
qed

lemma ts_company_eq: "ts_get_company_name_for_ticker tkr = get_company_name_for_ticker tkr"
  unfolding ts_get_company_name_for_ticker_def get_company_name_for_ticker_def
    company_names_def Let_def
  by (rule get_or_default)

lemma ts_fallback_eq: "ts_get_fallback_news_data tkr sq = get_fallback_news_data tkr sq"
  unfolding ts_get_fallback_news_data_def get_fallback_news_data_def headlines_def
    product_headlines_def leadership_headlines_def social_headlines_def financial_headlines_def
    news_item_def snippet_theme_def sources_def fallback_company_name_def fallback_industry_def
    company_info_def Let_def
  by (rule refl)

text \<open>
  C9. On every input, in every environment, each of the six deterministic methods of
  tradesymphony's \<open>SentimentAnalysisTool\<close> returns what the method of the same name of
  stocksage's \<open>SentimentAnalysisTool\<close> returns (the same value or the same exception):
  \<open>get_deterministic_sentiment\<close>, \<open>get_deterministic_date\<close>,
  \<open>get_deterministic_social_media_mentions\<close>, \<open>get_deterministic_analyst_ratings\<close>,
  \<open>get_fallback_news_data\<close> and \<open>get_company_name_for_ticker\<close>.
\<close>

theorem implementations_agree:
  "ts_get_deterministic_sentiment e text seed = get_deterministic_sentiment e text seed
   \<and> ts_get_deterministic_date e tkr hl days = get_deterministic_date e tkr hl days
   \<and> ts_get_deterministic_social_media_mentions e tkr n =
       get_deterministic_social_media_mentions e tkr n
   \<and> ts_get_deterministic_analyst_ratings s = get_deterministic_analyst_ratings s
   \<and> ts_get_fallback_news_data tkr sq = get_fallback_news_data tkr sq
   \<and> ts_get_company_name_for_ticker tkr = get_company_name_for_ticker tkr"
  by (simp only: ts_sentiment_eq ts_date_eq ts_mentions_eq ts_ratings_eq ts_fallback_eq
      ts_company_eq simp_thms)

section \<open>Ranges of the derived numbers\<close>




section \<open>Analyst ratings\<close>



section \<open>The fallback news\<close>

text \<open>
  C5. For every ticker and every optional query, \<open>get_fallback_news_data\<close> returns exactly
  five items, whose titles are the five headlines of the template list that the query
  selects. For \<open>("AAPL", "CEO reputation")\<close> the lowered query contains \<open>ceo\<close>, the list is
  the leadership one instantiated with \<open>Apple Inc.\<close> and \<open>AAPL\<close>, and the title and the
  snippet of each of the five items contain both \<open>Apple Inc.\<close> and \<open>AAPL\<close>.
\<close>

theorem fallback_news_five:
  "length (get_fallback_news_data tkr sq) = 5
   \<and> map (field ''title'') (get_fallback_news_data tkr sq) = headlines tkr sq
   \<and> str_in ''ceo'' (lower ''CEO reputation'')
   \<and> headlines ''AAPL'' (Some ''CEO reputation'') =
       leadership_headlines ''Apple Inc.'' ''AAPL'' ''Technology/Consumer Electronics''
   \<and> map (field ''title'') (get_fallback_news_data ''AAPL'' (Some ''CEO reputation'')) =
       [''Apple Inc. (AAPL) CEO Outlines Vision for Company Growth'',
        ''Leadership Changes at Apple Inc. (AAPL) Seen as Positive by Analysts'',
        ''Apple Inc. (AAPL) Executive Team Receives Industry Recognition'',
        ''CEO of Apple Inc. (AAPL) Speaks at Industry Conference on Innovation'',
        ''Leadership Strategy at Apple Inc. (AAPL) Focuses on Sustainable Growth'']
   \<and> list_all (\<lambda>it. str_in ''Apple Inc.'' (field ''title'' it) \<and> str_in ''AAPL'' (field ''title'' it)
                  \<and> str_in ''Apple Inc.'' (field ''snippet'' it) \<and> str_in ''AAPL'' (field ''snippet'' it))
       (get_fallback_news_data ''AAPL'' (Some ''CEO reputation''))"
proof -
  have a: "str_in ''ceo'' (lower ''CEO reputation'')"
    by (simp add: lower_def lower_char_def)
  have b: "headlines ''AAPL'' (Some ''CEO reputation'') =
       leadership_headlines ''Apple Inc.'' ''AAPL'' ''Technology/Consumer Electronics''"
    by (simp add: headlines_def truthy_def lower_def lower_char_def fallback_company_name_def
        fallback_industry_def company_info_def Let_def)
  have c: "map (field ''title'') (get_fallback_news_data ''AAPL'' (Some ''CEO reputation'')) =
       [''Apple Inc. (AAPL) CEO Outlines Vision for Company Growth'',
        ''Leadership Changes at Apple Inc. (AAPL) Seen as Positive by Analysts'',
        ''Apple Inc. (AAPL) Executive Team Receives Industry Recognition'',
        ''CEO of Apple Inc. (AAPL) Speaks at Industry Conference on Innovation'',
        ''Leadership Strategy at Apple Inc. (AAPL) Focuses on Sustainable Growth'']"
    unfolding fallback_aapl_ceo by (simp add: field_def)
  have d: "list_all (\<lambda>it. str_in ''Apple Inc.'' (field ''title'' it) \<and> str_in ''AAPL'' (field ''title'' it)
                  \<and> str_in ''Apple Inc.'' (field ''snippet'' it) \<and> str_in ''AAPL'' (field ''snippet'' it))
       (get_fallback_news_data ''AAPL'' (Some ''CEO reputation''))"
    unfolding fallback_aapl_ceo by (simp add: field_def)
  show ?thesis
    using fallback_length [of tkr sq] fallback_titles [of tkr sq] a b c d by blast
qed

section \<open>Two tables of company names\<close>

text \<open>
  C10. \<open>GOOG\<close> is missing from the table of \<open>get_company_name_for_ticker\<close>, which returns
  \<open>GOOG Corporation\<close>, while the table of \<open>get_fallback_news_data\<close> names it
  \<open>Alphabet Inc.\<close>; for \<open>GOOGL\<close> the two give \<open>Alphabet Inc. (Google)\<close> and \<open>Alphabet Inc.\<close>.
  So whenever the request fails and \<open>_run\<close> returns a report for \<open>GOOG\<close>, its
  \<open>company_name\<close> is \<open>GOOG Corporation\<close> and every one of its headlines contains
  \<open>Alphabet Inc.\<close>.
\<close>

theorem company_name_sources_disagree:
  "get_company_name_for_ticker ''GOOG'' = ''GOOG Corporation''
   \<and> map_of company_names ''GOOG'' = None
   \<and> fallback_company_name ''GOOG'' = ''Alphabet Inc.''
   \<and> get_company_name_for_ticker ''GOOGL'' = ''Alphabet Inc. (Google)''
   \<and> fallback_company_name ''GOOGL'' = ''Alphabet Inc.''
   \<and> list_all (str_in ''Alphabet Inc.'') (headlines ''GOOG'' sq)
   \<and> (http_post e (serper_api_key self) (query ''GOOG'' sq) = RequestFailed \<longrightarrow>
       run e self ''GOOG'' days sq = Inr r \<longrightarrow>
         company_name r = ''GOOG Corporation''
       \<and> map headline (news_items r) = map JStr (headlines ''GOOG'' sq))"
proof -
  have names: "get_company_name_for_ticker ''GOOG'' = ''GOOG Corporation''
      \<and> map_of company_names ''GOOG'' = None
      \<and> fallback_company_name ''GOOG'' = ''Alphabet Inc.''
      \<and> get_company_name_for_ticker ''GOOGL'' = ''Alphabet Inc. (Google)''
      \<and> fallback_company_name ''GOOGL'' = ''Alphabet Inc.''"
    by (simp add: get_company_name_for_ticker_def company_names_def fallback_company_name_def
        company_info_def)
  have rep: "company_name r = ''GOOG Corporation''
       \<and> map headline (news_items r) = map JStr (headlines ''GOOG'' sq)"
    if f: "http_post e (serper_api_key self) (query ''GOOG'' sq) = RequestFailed"
      and r: "run e self ''GOOG'' days sq = Inr r"
  proof -
    from run_Inr [OF r] have "company_name r = get_company_name_for_ticker ''GOOG''" by blast
    with names run_fallback_headlines [OF f r] show ?thesis by simp
  qed
  show ?thesis using names goog_headlines [of sq] rep by blast
qed

theorem company_name_sources_disagree_witness:
  "\<exists>r. run offline the_tool ''GOOG'' 30 None = Inr r
      \<and> company_name r = ''GOOG Corporation''
      \<and> map headline (news_items r) =
          [JStr ''Alphabet Inc. (GOOG) Reports Quarterly Earnings Above Expectations'',
           JStr ''Analysts Raise Price Target for Alphabet Inc. (GOOG) Citing Strong Growth'',
           JStr ''Alphabet Inc. (GOOG) Expands Market Share in Technology/Internet Services Sector'',
           JStr ''Market Trends Favorable for Alphabet Inc. (GOOG) This Quarter'',
           JStr ''Investors React to Alphabet Inc.'s (GOOG) Latest Strategic Announcements'']"
proof -
  have f: "http_post offline (serper_api_key the_tool) (query ''GOOG'' None) = RequestFailed"
    by (simp add: offline_simps)
  from run_fallback_ok [of 30 offline "''GOOG''" None the_tool] f
  obtain r where r: "run offline the_tool ''GOOG'' 30 None = Inr r"
    by (auto simp: offline_simps has_surrogate_def truthy_def)
  have h: "headlines ''GOOG'' None =
          [''Alphabet Inc. (GOOG) Reports Quarterly Earnings Above Expectations'',
           ''Analysts Raise Price Target for Alphabet Inc. (GOOG) Citing Strong Growth'',
           ''Alphabet Inc. (GOOG) Expands Market Share in Technology/Internet Services Sector'',
           ''Market Trends Favorable for Alphabet Inc. (GOOG) This Quarter'',
           ''Investors React to Alphabet Inc.'s (GOOG) Latest Strategic Announcements'']"
    by (simp add: headlines_def financial_headlines_def truthy_def fallback_company_name_def
        fallback_industry_def company_info_def Let_def)
  from company_name_sources_disagree [of None offline the_tool 30 r] f r h
  show ?thesis by auto
qed

section \<open>Labels\<close>

text \<open>
  C6. Whenever \<open>_run\<close> returns a report, its label is \<open>Bullish\<close> exactly when the overall
  score is above \<open>0.3\<close>, \<open>Bearish\<close> exactly when it is below \<open>-0.3\<close>, and \<open>Neutral\<close> otherwise,
  so the scores \<open>0.3\<close> and \<open>-0.3\<close> themselves are \<open>Neutral\<close>; and each scored item is
  \<open>positive\<close> exactly when its score (the value of \<open>get_deterministic_sentiment\<close>, before
  it is rounded for the report) is above \<open>0.1\<close>, \<open>negative\<close> exactly when it is below
  \<open>-0.1\<close>, and \<open>neutral\<close> otherwise.
\<close>

theorem strict_labels:
  assumes "run e self tkr days sq = Inr r"
  shows "(sentiment_label r = ''Bullish'' \<longleftrightarrow> 3 / 10 < overall_sentiment_score r)
       \<and> (sentiment_label r = ''Bearish'' \<longleftrightarrow> overall_sentiment_score r < - (3 / 10))
       \<and> (sentiment_label r = ''Neutral'' \<longleftrightarrow>
            - (3 / 10) \<le> overall_sentiment_score r \<and> overall_sentiment_score r \<le> 3 / 10)
       \<and> (\<forall>xs. fetch_stock_news e self tkr sq = JArr xs \<longrightarrow>
             list_all2
               (\<lambda>it p. (sentiment p = ''positive'' \<longleftrightarrow> 1 / 10 < item_score e tkr it)
                     \<and> (sentiment p = ''negative'' \<longleftrightarrow> item_score e tkr it < - (1 / 10))
                     \<and> (sentiment p = ''neutral'' \<longleftrightarrow>
                          - (1 / 10) \<le> item_score e tkr it \<and> item_score e tkr it \<le> 1 / 10))
               (take 10 xs) (news_items r))"
proof -
  from run_Inr [OF assms] have lab: "sentiment_label r = overall_label (overall_sentiment_score r)"
    by blast
  have items: "list_all2
               (\<lambda>it p. (sentiment p = ''positive'' \<longleftrightarrow> 1 / 10 < item_score e tkr it)
                     \<and> (sentiment p = ''negative'' \<longleftrightarrow> item_score e tkr it < - (1 / 10))
                     \<and> (sentiment p = ''neutral'' \<longleftrightarrow>
                          - (1 / 10) \<le> item_score e tkr it \<and> item_score e tkr it \<le> 1 / 10))
               (take 10 xs) (news_items r)"
    if f: "fetch_stock_news e self tkr sq = JArr xs" for xs
  proof -
    from run_scored [OF assms] f have
      "list_all2 (\<lambda>it p. process_item e tkr days it = Inr (p, item_score e tkr it))
         (take 10 xs) (news_items r)"
      by (auto simp: first_ten_JArr)
    then show ?thesis
    proof (rule list_all2_mono)
      fix it p
      assume "process_item e tkr days it = Inr (p, item_score e tkr it)"
      from process_item_score [OF this] have "sentiment p = item_label (item_score e tkr it)"
        by simp
      then show "(sentiment p = ''positive'' \<longleftrightarrow> 1 / 10 < item_score e tkr it)
                     \<and> (sentiment p = ''negative'' \<longleftrightarrow> item_score e tkr it < - (1 / 10))
                     \<and> (sentiment p = ''neutral'' \<longleftrightarrow>
                          - (1 / 10) \<le> item_score e tkr it \<and> item_score e tkr it \<le> 1 / 10)"
        using item_label_iff [of "item_score e tkr it"] by simp
    qed
  qed
  show ?thesis
    using lab overall_label_iff [of "overall_sentiment_score r"] items by simp
qed

theorem strict_labels_witness:
  "(\<exists>r. run (reading stories_at_upper) the_tool ''AAPL'' 30 None = Inr r
        \<and> map sentiment_score (news_items r) = [1 / 2, 1 / 10]
        \<and> map sentiment (news_items r) = [''positive'', ''neutral'']
        \<and> overall_sentiment_score r = 3 / 10
        \<and> sentiment_label r = ''Neutral'')
   \<and> (\<exists>r. run (reading stories_at_lower) the_tool ''AAPL'' 30 None = Inr r
        \<and> map sentiment_score (news_items r) = [- (1 / 2), - (1 / 10)]
        \<and> map sentiment (news_items r) = [''negative'', ''neutral'']
        \<and> overall_sentiment_score r = - (3 / 10)
        \<and> sentiment_label r = ''Neutral'')
   \<and> (\<exists>r. run (reading stories_above) the_tool ''AAPL'' 30 None = Inr r
        \<and> map sentiment_score (news_items r) = [11 / 20, 7 / 100]
        \<and> map sentiment (news_items r) = [''positive'', ''neutral'']
        \<and> overall_sentiment_score r = 31 / 100
        \<and> sentiment_label r = ''Bullish'')
   \<and> (\<exists>r. run (reading stories_below) the_tool ''AAPL'' 30 None = Inr r
        \<and> map sentiment_score (news_items r) = [- (11 / 20), - (7 / 100)]
        \<and> map sentiment (news_items r) = [''negative'', ''neutral'']
        \<and> overall_sentiment_score r = - (31 / 100)
        \<and> sentiment_label r = ''Bearish'')"
proof -
  have gen: "\<exists>r p q. run (reading d) the_tool ''AAPL'' 30 None = Inr r
        \<and> news_items r = [p, q]
        \<and> sentiment_score p = py_round2 sa \<and> sentiment_score q = py_round2 sb
        \<and> overall_sentiment_score r = py_round2 ((sa + sb) / 2)
        \<and> (sentiment p = ''positive'' \<longleftrightarrow> 1 / 10 < sa)
        \<and> (sentiment p = ''negative'' \<longleftrightarrow> sa < - (1 / 10))
        \<and> (sentiment q = ''neutral'' \<longleftrightarrow> - (1 / 10) \<le> sb \<and> sb \<le> 1 / 10)
        \<and> (sentiment_label r = ''Bullish'' \<longleftrightarrow> 3 / 10 < overall_sentiment_score r)
        \<and> (sentiment_label r = ''Bearish'' \<longleftrightarrow> overall_sentiment_score r < - (3 / 10))
        \<and> (sentiment_label r = ''Neutral'' \<longleftrightarrow>
              - (3 / 10) \<le> overall_sentiment_score r \<and> overall_sentiment_score r \<le> 3 / 10)"
    if d: "d = JObj [(''news'', JArr [JObj [(''title'', JStr a)], JObj [(''title'', JStr b)]])]"
      and a: "\<not> has_surrogate a" and b: "\<not> has_surrogate b"
      and sa: "get_deterministic_sentiment (reading d) (a @ '' '') ''AAPL'' = sa"
      and sb: "get_deterministic_sentiment (reading d) (b @ '' '') ''AAPL'' = sb"
    for d a b sa sb
  proof -
    have f: "fetch_stock_news (reading d) the_tool ''AAPL'' None =
               JArr [JObj [(''title'', JStr a)], JObj [(''title'', JStr b)]]"
      by (rule fetch_news_list) (simp add: reading_simps d)
    have t: "\<not> has_surrogate ''AAPL''" by (simp add: has_surrogate_def)
    from run_two [of 30 "reading d" "''AAPL''" a b the_tool None, OF _ _ _ _ _ t a b f]
    obtain r p q where r: "run (reading d) the_tool ''AAPL'' 30 None = Inr r"
      and pq: "news_items r = [p, q]"
      and sp: "sentiment_score p = py_round2 sa" and sq: "sentiment_score q = py_round2 sb"
      and ov: "overall_sentiment_score r = py_round2 ((sa + sb) / 2)"
      by (auto simp: reading_simps sa sb)
    from strict_labels [OF r] f pq have
      "(sentiment_label r = ''Bullish'' \<longleftrightarrow> 3 / 10 < overall_sentiment_score r)
       \<and> (sentiment_label r = ''Bearish'' \<longleftrightarrow> overall_sentiment_score r < - (3 / 10))
       \<and> (sentiment_label r = ''Neutral'' \<longleftrightarrow>
              - (3 / 10) \<le> overall_sentiment_score r \<and> overall_sentiment_score r \<le> 3 / 10)
       \<and> (sentiment p = ''positive'' \<longleftrightarrow> 1 / 10 < sa)
       \<and> (sentiment p = ''negative'' \<longleftrightarrow> sa < - (1 / 10))
       \<and> (sentiment q = ''neutral'' \<longleftrightarrow> - (1 / 10) \<le> sb \<and> sb \<le> 1 / 10)"
      by (simp add: title_score sa sb)
    with r pq sp sq ov show ?thesis by blast
  qed
  have c: "\<not> has_surrogate ''Apple surges on Mac sales''"
    "\<not> has_surrogate ''Apple shares steady today''"
    "\<not> has_surrogate ''Apple plunges on tax news''"
    "\<not> has_surrogate ''Apple to report''"
    "\<not> has_surrogate ''Apple surges on record revenue''"
    "\<not> has_surrogate ''Apple update''"
    "\<not> has_surrogate ''Apple plunges on tax''"
    "\<not> has_surrogate ''Apple delays phone''"
    by (simp_all add: has_surrogate_def)
  from gen [OF stories_at_upper_def c(1,2), of "1 / 2" "1 / 10"]
  have u: "\<exists>r. run (reading stories_at_upper) the_tool ''AAPL'' 30 None = Inr r
        \<and> map sentiment_score (news_items r) = [1 / 2, 1 / 10]
        \<and> map sentiment (news_items r) = [''positive'', ''neutral'']
        \<and> overall_sentiment_score r = 3 / 10
        \<and> sentiment_label r = ''Neutral''"
    by (auto simp: lexical_scores py_round2_examples)
  from gen [OF stories_at_lower_def c(3,4), of "- (1 / 2)" "- (1 / 10)"]
  have l: "\<exists>r. run (reading stories_at_lower) the_tool ''AAPL'' 30 None = Inr r
        \<and> map sentiment_score (news_items r) = [- (1 / 2), - (1 / 10)]
        \<and> map sentiment (news_items r) = [''negative'', ''neutral'']
        \<and> overall_sentiment_score r = - (3 / 10)
        \<and> sentiment_label r = ''Neutral''"
    by (auto simp: lexical_scores py_round2_examples)
  from gen [OF stories_above_def c(5,6), of "11 / 20" "7 / 100"]
  have a: "\<exists>r. run (reading stories_above) the_tool ''AAPL'' 30 None = Inr r
        \<and> map sentiment_score (news_items r) = [11 / 20, 7 / 100]
        \<and> map sentiment (news_items r) = [''positive'', ''neutral'']
        \<and> overall_sentiment_score r = 31 / 100
        \<and> sentiment_label r = ''Bullish''"
    by (auto simp: lexical_scores py_round2_examples)
  from gen [OF stories_below_def c(7,8), of "- (11 / 20)" "- (7 / 100)"]
  have b: "\<exists>r. run (reading stories_below) the_tool ''AAPL'' 30 None = Inr r
        \<and> map sentiment_score (news_items r) = [- (11 / 20), - (7 / 100)]
        \<and> map sentiment (news_items r) = [''negative'', ''neutral'']
        \<and> overall_sentiment_score r = - (31 / 100)
        \<and> sentiment_label r = ''Bearish''"
    by (auto simp: lexical_scores py_round2_examples)
  from u l a b show ?thesis by (intro conjI)
qed

section \<open>Aggregation\<close>



section \<open>At most ten items\<close>

text \<open>
  C8. Whenever \<open>_run\<close> returns a report, \<open>news_count\<close> is the length of \<open>news_items\<close>, is at
  most 10, and is \<open>min(n, 10)\<close> for a fetched sequence of length \<open>n\<close>; for a fetched list
  the entries of \<open>news_items\<close> are, in order, the results of scoring its first ten items,
  so the items past the tenth are not scored.
\<close>

theorem news_count_capped:
  assumes "run e self tkr days sq = Inr r"
  shows "news_count r = length (news_items r)
       \<and> news_count r \<le> 10
       \<and> (\<forall>n. py_len (fetch_stock_news e self tkr sq) = Inr n \<longrightarrow> news_count r = min n 10)
       \<and> (\<forall>xs. fetch_stock_news e self tkr sq = JArr xs \<longrightarrow>
              list_all2 (\<lambda>it p. process_item e tkr days it = Inr (p, item_score e tkr it))
                (take 10 xs) (news_items r))"
proof -
  from run_scored [OF assms] obtain items where
    ft: "first_ten (fetch_stock_news e self tkr sq) = Inr items" and
    l2: "list_all2 (\<lambda>it p. process_item e tkr days it = Inr (p, item_score e tkr it))
           items (news_items r)" and
    nc: "news_count r = length items"
    by blast
  from l2 have len: "length items = length (news_items r)" by (rule list_all2_lengthD)
  have cap: "\<forall>n. py_len (fetch_stock_news e self tkr sq) = Inr n \<longrightarrow> length items = min n 10"
    using ft by (auto simp: first_ten_def py_len_def split: json.splits)
  have le: "length items \<le> 10"
    using ft by (auto simp: first_ten_def split: json.splits)
  have arr: "\<forall>xs. fetch_stock_news e self tkr sq = JArr xs \<longrightarrow> items = take 10 xs"
    using ft by (auto simp: first_ten_JArr)
  show ?thesis using l2 nc len cap le arr by auto
qed

theorem news_count_capped_witness:
  "\<exists>r. run (answering twelve_stories) the_tool ''AAPL'' 30 None = Inr r
      \<and> py_len (fetch_stock_news (answering twelve_stories) the_tool ''AAPL'' None) = Inr 12
      \<and> news_count r = 10
      \<and> length (news_items r) = 10"
proof -
  let ?e = "answering twelve_stories"
  let ?xs = "map (\<lambda>i. JObj [(''title'', JStr (''Story '' @ str_nat i)),
                          (''snippet'', JStr ''Apple (AAPL) shares move'')]) [0..<12]"
  have ft: "first_ten (fetch_stock_news ?e the_tool ''AAPL'' None) = Inr (take 10 ?xs)"
    by (simp only: fetch_twelve first_ten_JArr)
  have objs: "\<forall>it\<in>set (take 10 ?xs). \<exists>kvs. it = JObj kvs \<and> \<not> has_surrogate (item_text ?e kvs)"
    using str_nat_clean
    by (auto dest!: in_set_takeD
         simp: item_text_def dict_get_def py_str_def has_surrogate_def)
  from run_ok [of 30 ?e "''AAPL''" the_tool None "take 10 ?xs", OF _ _ _ _ _ _ ft objs]
  obtain r where r: "run ?e the_tool ''AAPL'' 30 None = Inr r"
    by (auto simp: answering_simps has_surrogate_def)
  have n: "py_len (fetch_stock_news ?e the_tool ''AAPL'' None) = Inr 12"
    by (simp add: fetch_twelve py_len_def del: upt_rec_numeral)
  from news_count_capped [OF r] n r show ?thesis by auto
qed

section \<open>Failures of the fetch\<close>

text \<open>
  C2, as amended. When the request raises (network error, error status, a body that is
  not JSON, a rejected or missing key), \<open>fetch_stock_news\<close> returns
  \<open>get_fallback_news_data(ticker, search_query)\<close>, and so it does when an exception is
  raised while the payload is read inside the \<open>try\<close>. \<open>_run\<close> then returns a complete
  report, with \<open>news_count\<close> 5, for every ticker and every optional query that can be
  encoded in UTF-8 and every \<open>days\<close> other than 0 whose window of dates exists: \<open>days\<close>
  below today's ordinal, and for a negative \<open>days\<close> (where the dates lie ahead) no more
  than the calendar has left. Under the same conditions on the ticker and on \<open>days\<close>,
  \<open>_run\<close> returns a complete report whenever the fetched value is a list whose first ten
  entries are objects with a title and a snippet that can be encoded, with \<open>news_count\<close>
  the smaller of the length and 10.

  The claim as written holds for every ticker, every integer \<open>days\<close> and every payload. It
  fails for \<open>days = 0\<close>, where \<open>hash % days\<close> raises \<open>ZeroDivisionError\<close> on the fallback data
  of every ticker; for a \<open>days\<close> whose offset leaves the calendar, where the date
  subtraction raises \<open>OverflowError\<close>; for a ticker, a query or a fetched title with a lone
  surrogate, where \<open>.encode()\<close> raises \<open>UnicodeEncodeError\<close> outside the \<open>try\<close>; and for a
  payload whose news entries are not objects, which \<open>fetch_stock_news\<close> returns unchanged
  and on which \<open>item.get\<close> raises \<open>AttributeError\<close> in the loop of \<open>_run\<close>.
\<close>

theorem run_returns_report:
  assumes "days \<noteq> 0" "days < today e" "today e - days \<le> 3652061"
    and "1 < today e" "today e \<le> 3652059"
    and "\<not> has_surrogate tkr"
  shows "(http_post e (serper_api_key self) (query tkr sq) = RequestFailed \<longrightarrow>
            fetch_stock_news e self tkr sq = JArr (get_fallback_news_data tkr sq))
       \<and> (\<forall>data err. http_post e (serper_api_key self) (query tkr sq) = Payload data \<longrightarrow>
            extract_news data = Inl err \<longrightarrow>
            fetch_stock_news e self tkr sq = JArr (get_fallback_news_data tkr sq))
       \<and> (fetch_stock_news e self tkr sq = JArr (get_fallback_news_data tkr sq) \<longrightarrow>
            (\<forall>s. sq = Some s \<longrightarrow> \<not> has_surrogate s) \<longrightarrow>
            (\<exists>r. run e self tkr days sq = Inr r \<and> well_shaped r \<and> ticker r = tkr
                \<and> news_count r = 5))
       \<and> (\<forall>xs. fetch_stock_news e self tkr sq = JArr xs \<longrightarrow>
            (\<forall>it\<in>set (take 10 xs). \<exists>kvs. it = JObj kvs \<and> \<not> has_surrogate (item_text e kvs)) \<longrightarrow>
            (\<exists>r. run e self tkr days sq = Inr r \<and> well_shaped r \<and> ticker r = tkr
                \<and> news_count r = min (length xs) 10))"
proof -
  have a: "\<forall>data err. http_post e (serper_api_key self) (query tkr sq) = Payload data \<longrightarrow>
            extract_news data = Inl err \<longrightarrow>
            fetch_stock_news e self tkr sq = JArr (get_fallback_news_data tkr sq)"
    by (simp add: fetch_stock_news_def)
  have b: "\<exists>r. run e self tkr days sq = Inr r \<and> well_shaped r \<and> ticker r = tkr
                \<and> news_count r = min (length xs) 10"
    if f: "fetch_stock_news e self tkr sq = JArr xs"
      and o: "\<forall>it\<in>set (take 10 xs). \<exists>kvs. it = JObj kvs \<and> \<not> has_surrogate (item_text e kvs)"
    for xs
  proof -
    have ft: "first_ten (fetch_stock_news e self tkr sq) = Inr (take 10 xs)"
      by (simp add: f first_ten_JArr)
    from run_ok [OF assms(1,2,4,5,3,6) ft o] obtain r where r: "run e self tkr days sq = Inr r"
      by blast
    from run_Inr [OF r] have t: "ticker r = tkr" by blast
    from run_scored [OF r] ft have "news_count r = min (length xs) 10"
      by (auto simp: min.commute)
    with r t run_well_shaped [OF r] show ?thesis by blast
  qed
  have c: "\<exists>r. run e self tkr days sq = Inr r \<and> well_shaped r \<and> ticker r = tkr
                \<and> news_count r = 5"
    if f: "fetch_stock_news e self tkr sq = JArr (get_fallback_news_data tkr sq)"
      and q: "\<forall>s. sq = Some s \<longrightarrow> \<not> has_surrogate s"
  proof -
    from q have "truthy sq \<longrightarrow> \<not> has_surrogate (the sq)"
      by (cases sq) (simp_all add: truthy_def)
    from fallback_clean [OF assms(6) this, of e]
    have "\<forall>it\<in>set (take 10 (get_fallback_news_data tkr sq)).
            \<exists>kvs. it = JObj kvs \<and> \<not> has_surrogate (item_text e kvs)"
      by (auto dest: in_set_takeD)
    from b [OF f this] show ?thesis by (simp add: fallback_length)
  qed
  show ?thesis using fetch_failed [of e self tkr sq] a b c by blast
qed

theorem run_returns_report_witness:
  "(30::int) \<noteq> 0 \<and> 30 < today offline \<and> today offline - 30 \<le> 3652061
   \<and> (- 5::int) \<noteq> 0 \<and> - 5 < today offline \<and> today offline - (- 5) \<le> 3652061
   \<and> 1 < today offline \<and> today offline \<le> 3652059
   \<and> \<not> has_surrogate ''AAPL''
   \<and> fetch_stock_news offline the_tool ''AAPL'' None = JArr (get_fallback_news_data ''AAPL'' None)
   \<and> (\<exists>r. run offline the_tool ''AAPL'' 30 None = Inr r \<and> well_shaped r \<and> ticker r = ''AAPL''
          \<and> news_count r = 5)
   \<and> (\<exists>r. run offline the_tool ''AAPL'' (- 5) None = Inr r \<and> well_shaped r \<and> ticker r = ''AAPL''
          \<and> news_count r = 5)
   \<and> (\<exists>r. run (answering three_stories) the_tool ''AAPL'' 30 None = Inr r \<and> well_shaped r
          \<and> ticker r = ''AAPL'' \<and> news_count r = 3)"
proof -
  have t: "\<not> has_surrogate ''AAPL''" by (simp add: has_surrogate_def)
  have f: "fetch_stock_news offline the_tool ''AAPL'' None = JArr (get_fallback_news_data ''AAPL'' None)"
    by (rule fetch_failed) (simp add: offline_simps)
  from run_returns_report [of 30 offline "''AAPL''" the_tool None] t f
  have a: "\<exists>r. run offline the_tool ''AAPL'' 30 None = Inr r \<and> well_shaped r \<and> ticker r = ''AAPL''
          \<and> news_count r = 5"
    by (simp add: offline_simps)
  from run_returns_report [of "- 5" offline "''AAPL''" the_tool None] t f
  have b: "\<exists>r. run offline the_tool ''AAPL'' (- 5) None = Inr r \<and> well_shaped r \<and> ticker r = ''AAPL''
          \<and> news_count r = 5"
    by (simp add: offline_simps)
  have cl: "\<forall>it\<in>set (take 10 [JObj [(''title'', JStr ''Apple unveils new iPhone''),
                 (''snippet'', JStr ''Shares of Apple rose.''),
                 (''source'', JStr ''Reuters''),
                 (''link'', JStr ''https://news.example.com/1'')],
           JObj [(''title'', JStr ''AAPL slips on supply worries''),
                 (''snippet'', JStr ''Analysts cut targets.'')],
           JObj [(''title'', JStr ''Apple services revenue grows'')]]).
           \<exists>kvs. it = JObj kvs \<and> \<not> has_surrogate (item_text (answering three_stories) kvs)"
    by (simp add: item_text_def dict_get_def py_str_def has_surrogate_def)
  from run_returns_report [of 30 "answering three_stories" "''AAPL''" the_tool None] t
    fetch_three [of the_tool "''AAPL''" None] cl
  have c: "\<exists>r. run (answering three_stories) the_tool ''AAPL'' 30 None = Inr r \<and> well_shaped r
          \<and> ticker r = ''AAPL'' \<and> news_count r = 3"
    by (simp add: answering_simps numeral_3_eq_3)
  from t f a b c show ?thesis by (simp add: offline_simps)
qed

text \<open>The unhandled exceptions: \<open>days = 0\<close>; a window that starts before year 1 (the MD5
  offset is 1642809 days) or ends after year 9999 (72357191 days ahead); a ticker, a
  query and a fetched title with a lone surrogate; a news entry that is a string.\<close>

theorem run_returns_report_counterexample:
  "run offline the_tool ''AAPL'' 0 None = Inl ZeroDivisionError
   \<and> run hashing the_tool ''AAPL'' 2000000 None = Inl OverflowError
   \<and> run hashing the_tool ''AAPL'' (- 100000000) None = Inl OverflowError
   \<and> run offline the_tool (''AAPL'' @ [CHR 0xFF]) 30 None = Inl UnicodeEncodeError
   \<and> run offline the_tool ''AAPL'' 30 (Some (''outlook '' @ [CHR 0xFF])) = Inl UnicodeEncodeError
   \<and> run (answering surrogate_story) the_tool ''AAPL'' 30 None = Inl UnicodeEncodeError
   \<and> run (answering bare_story) the_tool ''AAPL'' 30 None = Inl AttributeError"
proof -
  have a: "run offline the_tool ''AAPL'' 0 None = Inl ZeroDivisionError"
    by (rule run_fallback_days_zero) (simp_all add: offline_simps has_surrogate_def truthy_def)
  have b: "run offline the_tool (''AAPL'' @ [CHR 0xFF]) 30 None = Inl UnicodeEncodeError"
    by (rule run_fallback_surrogate) (simp_all add: offline_simps has_surrogate_def)
  have c: "run offline the_tool ''AAPL'' 30 (Some (''outlook '' @ [CHR 0xFF])) = Inl UnicodeEncodeError"
    by (rule run_fallback_surrogate) (simp_all add: offline_simps has_surrogate_def truthy_def)
  from a b c hashing_overflow [of 2000000] hashing_overflow [of "- 100000000"]
    surrogate_story_raises bare_story_raises
  show ?thesis by simp
qed

section \<open>Reproducibility\<close>

text \<open>
  C1. The claim: with no network, two calls of \<open>_run\<close> with the same ticker, days and
  query return the same report, and \<open>get_deterministic_date\<close> returns the same date string
  for the same ticker, headline and days. The code computes the date as
  \<open>datetime.now()\<close> minus the offset, so the claim holds only between calls on the same
  day (\<open>run_same_clock\<close>, \<open>derived_numbers_reproducible\<close>). Evaluated here: the same call on
  2026-11-04 and on 2026-11-05, with \<open>days = 1\<close> (where the offset is 1 whatever the hash
  is), gives the dates 2026-11-03 and 2026-11-04, and two different reports.
\<close>

theorem date_follows_the_clock:
  "get_deterministic_date offline ''AAPL''
     ''Apple Inc. (AAPL) Reports Quarterly Earnings Above Expectations'' 1 = Inr ''2026-11-03''
   \<and> get_deterministic_date (offline\<lparr>today := 739925\<rparr>) ''AAPL''
     ''Apple Inc. (AAPL) Reports Quarterly Earnings Above Expectations'' 1 = Inr ''2026-11-04''
   \<and> (\<exists>r r'. run offline the_tool ''AAPL'' 1 None = Inr r
           \<and> run (offline\<lparr>today := 739925\<rparr>) the_tool ''AAPL'' 1 None = Inr r'
           \<and> map date (news_items r) = replicate 5 ''2026-11-03''
           \<and> map date (news_items r') = replicate 5 ''2026-11-04''
           \<and> r \<noteq> r')"
proof -
  let ?e' = "offline\<lparr>today := 739925\<rparr>"
  have a: "get_deterministic_date offline ''AAPL''
     ''Apple Inc. (AAPL) Reports Quarterly Earnings Above Expectations'' 1 = Inr ''2026-11-03''"
    using date_one_day [of offline "''AAPL''"
        "''Apple Inc. (AAPL) Reports Quarterly Earnings Above Expectations''"]
    by (simp add: offline_simps date_2026_11_03 has_surrogate_def)
  have b: "get_deterministic_date ?e' ''AAPL''
     ''Apple Inc. (AAPL) Reports Quarterly Earnings Above Expectations'' 1 = Inr ''2026-11-04''"
    using date_one_day [of ?e' "''AAPL''"
        "''Apple Inc. (AAPL) Reports Quarterly Earnings Above Expectations''"]
    by (simp add: date_2026_11_04 has_surrogate_def)
  from run_fallback_ok [of 1 offline "''AAPL''" None the_tool]
  obtain r where r: "run offline the_tool ''AAPL'' 1 None = Inr r"
    by (auto simp: offline_simps has_surrogate_def truthy_def)
  from run_fallback_ok [of 1 ?e' "''AAPL''" None the_tool]
  obtain r' where r': "run ?e' the_tool ''AAPL'' 1 None = Inr r'"
    by (auto simp: offline_simps has_surrogate_def truthy_def)
  have n: "news_count r = 5"
    using run_fallback_headlines [OF _ r] by (simp add: offline_simps)
  have n': "news_count r' = 5"
    using run_fallback_headlines [OF _ r'] by (simp add: offline_simps)
  have d: "map date (news_items r) = replicate 5 ''2026-11-03''"
    using run_dates_one_day [OF r] by (simp add: offline_simps n date_2026_11_03)
  have d': "map date (news_items r') = replicate 5 ''2026-11-04''"
    using run_dates_one_day [OF r'] by (simp add: n' date_2026_11_04)
  from d d' have "r \<noteq> r'" by auto
  with a b r r' d d' show ?thesis by blast
qed

end
